theory Spec2Isabelle
  imports Complex_Main "HOL-Library.Sublist" "HOL-Library.Char_ord" "HOL-Library.List_Lexorder"
begin

section \<open>Python values and strings\<close>

text \<open>
  The script \<^verbatim>\<open>scripts/consultar_cnpjs_colab.py\<close> works on Python strings and on the
  values that \<^verbatim>\<open>r.json()\<close> decodes. A Python \<^verbatim>\<open>str\<close> is a sequence of code points; it
  is modelled as \<^typ>\<open>string\<close>, one \<^typ>\<open>char\<close> per code point, which covers the code
  points 0 to 255. On that range the pattern \<^verbatim>\<open>\d\<close> matches exactly the ten characters
  \<^verbatim>\<open>0\<close> to \<^verbatim>\<open>9\<close>, and the accented letters of the script's literals are single
  characters (\<^verbatim>\<open>0xE3\<close>, \<^verbatim>\<open>0xF3\<close>, \<^verbatim>\<open>0xE1\<close>).

  A float is held by its \<^verbatim>\<open>repr\<close>, the text that \<^verbatim>\<open>str()\<close> and an f-string print: the
  script never computes with a decoded float. A dict is the list of its items, looked up
  with \<^const>\<open>map_of\<close>.
\<close>

datatype pyval =
    PNone
  | PBool bool
  | PInt int
  | PFloat string
  | PStr string
  | PList "pyval list"
  | PDict "(string \<times> pyval) list"

datatype py_error = AttributeError | TypeError | KeyError | ValueError | MergeError

text \<open>Truth value of a Python object, as \<^verbatim>\<open>if x:\<close> and \<^verbatim>\<open>x or y\<close> test it.\<close>

fun truthy :: "pyval \<Rightarrow> bool" where
  "truthy PNone = False"
| "truthy (PBool b) = b"
| "truthy (PInt i) = (i \<noteq> 0)"
| "truthy (PFloat r) = (r \<noteq> ''0.0'' \<and> r \<noteq> ''-0.0'')"
| "truthy (PStr s) = (s \<noteq> [])"
| "truthy (PList xs) = (xs \<noteq> [])"
| "truthy (PDict d) = (d \<noteq> [])"

definition py_or :: "pyval \<Rightarrow> pyval \<Rightarrow> pyval" where
  "py_or a b = (if truthy a then a else b)"

definition dict_get :: "(string \<times> pyval) list \<Rightarrow> string \<Rightarrow> pyval \<Rightarrow> pyval" where
  "dict_get d k dflt = (case map_of d k of Some v \<Rightarrow> v | None \<Rightarrow> dflt)"

text \<open>Decimal text of an integer: \<^verbatim>\<open>str(n)\<close>.\<close>

fun str_nat :: "nat \<Rightarrow> string" where
  "str_nat n =
     (if n < 10 then [''0123456789'' ! n]
      else str_nat (n div 10) @ [''0123456789'' ! (n mod 10)])"

declare str_nat.simps [simp del]

definition str_int :: "int \<Rightarrow> string" where
  "str_int i = (if i < 0 then CHR ''-'' # str_nat (nat (- i)) else str_nat (nat i))"

section \<open>The world outside the script\<close>

text \<open>
  One attempt of \<^verbatim>\<open>requests.get\<close> either raises a \<^verbatim>\<open>RequestException\<close> (with its
  text) or returns a response: the status code and what \<^verbatim>\<open>r.json()\<close> does on its body,
  raising a decode error (\<open>Inl\<close>, with its text) or returning the decoded value (\<open>Inr\<close>).
\<close>

datatype outcome =
    TransportError string
  | Response nat "string + pyval"

text \<open>
  What the script does to its surroundings: HTTP requests, blocking sleeps (in seconds),
  and the calls of \<^verbatim>\<open>consulta_brasilapi\<close> made by the main loop. A run is the list of its
  events in the order they happen.
\<close>

datatype event = Get string | Sleep rat | Lookup string

text \<open>
  The parts of a run that the source does not fix:
  \<^item> \<open>http_get i url\<close>: the outcome of the run's \<open>i\<close>-th request (counted from 0), sent
    to \<open>url\<close>;
  \<^item> \<open>float_int_str s\<close>: the text \<^verbatim>\<open>str(int(float(s)))\<close>, or \<open>None\<close> when that raises
    (binary floating point is outside the model);
  \<^item> \<open>container_str v\<close>: \<^verbatim>\<open>str(v)\<close> of a list or dict (the \<^verbatim>\<open>repr\<close> of its items).
\<close>

record runtime =
  http_get :: "nat \<Rightarrow> string \<Rightarrow> outcome"
  float_int_str :: "string \<Rightarrow> string option"
  container_str :: "pyval \<Rightarrow> string"

definition n_requests :: "event list \<Rightarrow> nat" where
  "n_requests w = length [u. Get u \<leftarrow> w]"

text \<open>\<^verbatim>\<open>str(x)\<close>, which the f-strings of the script apply to the value they print.\<close>

definition py_str :: "runtime \<Rightarrow> pyval \<Rightarrow> string" where
  "py_str rt v =
     (case v of
        PNone \<Rightarrow> ''None''
      | PBool b \<Rightarrow> (if b then ''True'' else ''False'')
      | PInt i \<Rightarrow> str_int i
      | PFloat r \<Rightarrow> r
      | PStr s \<Rightarrow> s
      | PList xs \<Rightarrow> container_str rt v
      | PDict d \<Rightarrow> container_str rt v)"

section \<open>Configuration\<close>

definition COLUNA_CNPJ :: string where
  "COLUNA_CNPJ = ''CNPJ''"

definition SLEEP_ENTRE_CHAMADAS :: rat where
  "SLEEP_ENTRE_CHAMADAS = 15 / 100"

definition MAX_RETRIES :: nat where
  "MAX_RETRIES = 3"

definition BACKOFF_BASE :: rat where
  "BACKOFF_BASE = 8 / 10"

section \<open>Identifier normalizer\<close>

text \<open>The characters \<^verbatim>\<open>\d\<close> matches, and the value \<^verbatim>\<open>int(n)\<close> of one of them.\<close>

definition is_digit :: "char \<Rightarrow> bool" where
  "is_digit c = (c \<in> set ''0123456789'')"

definition digit_value :: "char \<Rightarrow> int" where
  "digit_value c = int (of_char c) - 48"

text \<open>The characters \<^verbatim>\<open>str.strip()\<close> removes, by code point.\<close>

definition is_space :: "char \<Rightarrow> bool" where
  "is_space c = ((of_char c :: nat) \<in> set [9, 10, 11, 12, 13, 28, 29, 30, 31, 32, 133, 160])"

definition strip :: "string \<Rightarrow> string" where
  "strip s = rev (dropWhile is_space (rev (dropWhile is_space s)))"

text \<open>
  \<^verbatim>\<open>re.fullmatch(r"\d+(?:\.\d+)?[eE]\+\d+", s)\<close>. The first run of digits is maximal,
  since what follows it is no digit; when a dot follows, the group has to match.
\<close>

definition sci_match :: "string \<Rightarrow> bool" where
  "sci_match s =
     (let m = takeWhile is_digit s; r = dropWhile is_digit s in
      m \<noteq> [] \<and>
      (let r' = (case r of
                   [] \<Rightarrow> Some r
                 | c # t \<Rightarrow>
                     if c = CHR ''.'' then
                       (if takeWhile is_digit t \<noteq> [] then Some (dropWhile is_digit t) else None)
                     else Some r)
       in case r' of
            Some (e # p # ds) \<Rightarrow>
              (e = CHR ''e'' \<or> e = CHR ''E'') \<and> p = CHR ''+'' \<and> ds \<noteq> [] \<and> list_all is_digit ds
          | _ \<Rightarrow> False))"

definition to_str :: "runtime \<Rightarrow> pyval \<Rightarrow> string" where
  "to_str rt x =
     (if x = PNone then ''''
      else
        (let s = strip (py_str rt x) in
         if sci_match s then (case float_int_str rt s of Some t \<Rightarrow> t | None \<Rightarrow> s)
         else s))"

definition apenas_digitos :: "string \<Rightarrow> string" where
  "apenas_digitos s = filter is_digit s"

text \<open>\<^verbatim>\<open>str.zfill(width)\<close>: the zeros go after a leading sign.\<close>

definition zfill :: "nat \<Rightarrow> string \<Rightarrow> string" where
  "zfill width s =
     (if width \<le> length s then s
      else
        (case s of
           [] \<Rightarrow> replicate width CHR ''0''
         | c # t \<Rightarrow>
             if c = CHR ''+'' \<or> c = CHR ''-'' then c # replicate (width - length s) CHR ''0'' @ t
             else replicate (width - length s) CHR ''0'' @ s))"

definition normaliza_cnpj :: "runtime \<Rightarrow> pyval \<Rightarrow> string" where
  "normaliza_cnpj rt s = zfill 14 (apenas_digitos (to_str rt s))"

section \<open>Checksum validator\<close>

definition dv :: "string \<Rightarrow> int list \<Rightarrow> string" where
  "dv nums pesos =
     (let soma = sum_list (map (\<lambda>(n, p). digit_value n * p) (zip nums pesos));
          r = soma mod 11
      in if r < 2 then ''0'' else str_int (11 - r))"

definition p1 :: "int list" where
  "p1 = [5, 4, 3, 2, 9, 8, 7, 6, 5, 4, 3, 2]"

definition p2 :: "int list" where
  "p2 = [6] @ p1"

definition cnpj_valido :: "string \<Rightarrow> bool" where
  "cnpj_valido cnpj0 =
     (let cnpj = apenas_digitos cnpj0 in
      if length cnpj \<noteq> 14 then False
      else if cnpj = replicate 14 (hd cnpj) then False
      else
        (let d1 = dv (take 12 cnpj) p1;
             d2 = dv (take 12 cnpj @ d1) p2
         in drop (length cnpj - 2) cnpj = d1 @ d2))"

text \<open>
  The validator in the words of the specification, on digit values: a check digit is the
  weighted sum of the digits modulo 11, mapped to 0 below 2 and to 11 minus the remainder
  otherwise; an identifier is accepted when its last two digits are the two check digits.
\<close>

definition spec_check_digit :: "int list \<Rightarrow> int list \<Rightarrow> int" where
  "spec_check_digit ds ws =
     (let r = (\<Sum>(d, w) \<leftarrow> zip ds ws. d * w) mod 11 in if r < 2 then 0 else 11 - r)"

definition spec_first_digit :: "string \<Rightarrow> int" where
  "spec_first_digit s =
     spec_check_digit (map digit_value (take 12 s)) [5, 4, 3, 2, 9, 8, 7, 6, 5, 4, 3, 2]"

definition spec_second_digit :: "string \<Rightarrow> int" where
  "spec_second_digit s =
     spec_check_digit (map digit_value (take 12 s) @ [spec_first_digit s])
       [6, 5, 4, 3, 2, 9, 8, 7, 6, 5, 4, 3, 2]"

section \<open>Registry client\<close>

text \<open>
  The dict that \<^verbatim>\<open>consulta_brasilapi\<close> returns has the same 22 keys on every path; the
  fields are named after the keys. The value under \<^verbatim>\<open>CNPJ\<close> is the identifier asked
  for, a string; the others are whatever the provider sent, or a string of the script.
\<close>

record lookup =
  CNPJ :: string
  Razao_Social :: pyval
  Nome_Fantasia :: pyval
  CNAE_Principal :: pyval
  Descricao_CNAE :: pyval
  CNAE_Secundario_1 :: pyval
  Descricao_CNAE_Secundario_1 :: pyval
  Porte :: pyval
  Capital_Social :: pyval
  Situacao_Cadastral :: pyval
  Data_Situacao_Cadastral :: pyval
  Logradouro :: pyval
  Numero :: pyval
  Complemento :: pyval
  Bairro :: pyval
  Municipio :: pyval
  UF :: pyval
  CEP :: pyval
  Endereco_formatado :: pyval
  E_mail :: pyval
  Telefone_1 :: pyval
  Telefone_2 :: pyval

text \<open>The literals of the script that hold an accented letter.\<close>

definition nao_encontrado :: string where
  "nao_encontrado = ''N'' @ [CHR 0xE3] @ ''o encontrado''"

definition erro_apos_retries :: string where
  "erro_apos_retries = ''Erro ap'' @ [CHR 0xF3] @ ''s retries: ''"

definition cnpj_invalido_dv :: string where
  "cnpj_invalido_dv = ''CNPJ inv'' @ [CHR 0xE1] @ ''lido (DV)''"

text \<open>
  The dict literal of the four error returns and of the invalid identifier: the
  identifier, a text under the key of the legal name, the empty string under every other key.
\<close>

definition registro_status :: "string \<Rightarrow> string \<Rightarrow> lookup" where
  "registro_status cnpj nome =
     \<lparr>CNPJ = cnpj,
      Razao_Social = PStr nome,
      Nome_Fantasia = PStr [],
      CNAE_Principal = PStr [],
      Descricao_CNAE = PStr [],
      CNAE_Secundario_1 = PStr [],
      Descricao_CNAE_Secundario_1 = PStr [],
      Porte = PStr [],
      Capital_Social = PStr [],
      Situacao_Cadastral = PStr [],
      Data_Situacao_Cadastral = PStr [],
      Logradouro = PStr [],
      Numero = PStr [],
      Complemento = PStr [],
      Bairro = PStr [],
      Municipio = PStr [],
      UF = PStr [],
      CEP = PStr [],
      Endereco_formatado = PStr [],
      E_mail = PStr [],
      Telefone_1 = PStr [],
      Telefone_2 = PStr []\<rparr>"

text \<open>\<^verbatim>\<open>sep.join(items)\<close>: a \<^verbatim>\<open>TypeError\<close> when an item is not a string.\<close>

fun join_strs :: "string \<Rightarrow> string list \<Rightarrow> string" where
  "join_strs sep [] = []"
| "join_strs sep [s] = s"
| "join_strs sep (s # t # ss) = s @ sep @ join_strs sep (t # ss)"

fun as_strs :: "pyval list \<Rightarrow> string list option" where
  "as_strs [] = Some []"
| "as_strs (PStr s # vs) = (case as_strs vs of Some ss \<Rightarrow> Some (s # ss) | None \<Rightarrow> None)"
| "as_strs (v # vs) = None"

definition str_join :: "string \<Rightarrow> pyval list \<Rightarrow> py_error + string" where
  "str_join sep items =
     (case as_strs items of Some ss \<Rightarrow> Inr (join_strs sep ss) | None \<Rightarrow> Inl TypeError)"

definition endereco_formatado :: "runtime \<Rightarrow> (string \<times> pyval) list \<Rightarrow> py_error + string" where
  "endereco_formatado rt data =
     (let log = dict_get data ''logradouro'' (PStr []);
          num = dict_get data ''numero'' (PStr []);
          comp = dict_get data ''complemento'' (PStr []);
          bairro = dict_get data ''bairro'' (PStr []);
          mun = dict_get data ''municipio'' (PStr []);
          uf = dict_get data ''uf'' (PStr []);
          cep = dict_get data ''cep'' (PStr []);
          partes = filter truthy [log, num, comp, bairro]
      in case str_join '' - '' (filter truthy [mun, uf]) of
           Inl e \<Rightarrow> Inl e
         | Inr cidade_uf \<Rightarrow>
             (let partes2 = partes @ (if cidade_uf \<noteq> [] then [PStr cidade_uf] else []);
                  partes3 = partes2 @ (if truthy cep then [PStr (''CEP '' @ py_str rt cep)] else [])
              in str_join '', '' (filter truthy partes3)))"

text \<open>
  The branch of status 200, from the decoded body: \<^verbatim>\<open>data = r.json() or {}\<close>, then the
  dict literal. \<^verbatim>\<open>data.get\<close> raises \<^verbatim>\<open>AttributeError\<close> when the body is a true value
  that is no dict.
\<close>

definition resposta_200 :: "runtime \<Rightarrow> string \<Rightarrow> pyval \<Rightarrow> py_error + lookup" where
  "resposta_200 rt cnpj body =
     (case py_or body (PDict []) of
        PDict data \<Rightarrow>
          (let secs = py_or (dict_get data ''cnaes_secundarios'' PNone) (PList []);
               sec = (case secs of
                        PList (PDict s0 # rest) \<Rightarrow>
                          (py_or (dict_get s0 ''codigo'' (PStr [])) (PStr []),
                           py_or (dict_get s0 ''descricao'' (PStr [])) (PStr []))
                      | _ \<Rightarrow> (PStr [], PStr []));
               situacao = py_or (dict_get data ''descricao_situacao_cadastral'' (PStr []))
                                (dict_get data ''situacao_cadastral'' (PStr []));
               data_sit = dict_get data ''data_situacao_cadastral'' (PStr [])
           in case endereco_formatado rt data of
                Inl e \<Rightarrow> Inl e
              | Inr ender \<Rightarrow>
                  Inr \<lparr>CNPJ = cnpj,
                       Razao_Social = dict_get data ''razao_social'' (PStr []),
                       Nome_Fantasia = dict_get data ''nome_fantasia'' (PStr []),
                       CNAE_Principal = dict_get data ''cnae_fiscal'' (PStr []),
                       Descricao_CNAE = dict_get data ''cnae_fiscal_descricao'' (PStr []),
                       CNAE_Secundario_1 = fst sec,
                       Descricao_CNAE_Secundario_1 = snd sec,
                       Porte = dict_get data ''porte'' (PStr []),
                       Capital_Social = dict_get data ''capital_social'' (PStr []),
                       Situacao_Cadastral = situacao,
                       Data_Situacao_Cadastral = data_sit,
                       Logradouro = dict_get data ''logradouro'' (PStr []),
                       Numero = dict_get data ''numero'' (PStr []),
                       Complemento = dict_get data ''complemento'' (PStr []),
                       Bairro = dict_get data ''bairro'' (PStr []),
                       Municipio = dict_get data ''municipio'' (PStr []),
                       UF = dict_get data ''uf'' (PStr []),
                       CEP = dict_get data ''cep'' (PStr []),
                       Endereco_formatado = PStr ender,
                       E_mail = dict_get data ''email'' (PStr []),
                       Telefone_1 = dict_get data ''ddd_telefone_1'' (PStr []),
                       Telefone_2 = dict_get data ''ddd_telefone_2'' (PStr [])\<rparr>)
      | _ \<Rightarrow> Inl AttributeError)"

text \<open>
  The text printed for \<^verbatim>\<open>msg\<close> after
  \<^verbatim>\<open>try: msg = r.json().get("message", padrao)  except Exception: msg = excecao\<close>.
  The handler runs when the body does not decode and when the decoded value has no
  \<^verbatim>\<open>get\<close>, that is, when it is no dict.
\<close>

definition mensagem :: "runtime \<Rightarrow> string + pyval \<Rightarrow> string \<Rightarrow> string \<Rightarrow> string" where
  "mensagem rt body padrao excecao =
     (case body of
        Inr (PDict data) \<Rightarrow> py_str rt (dict_get data ''message'' (PStr padrao))
      | _ \<Rightarrow> excecao)"

definition url_of :: "string \<Rightarrow> string" where
  "url_of cnpj = ''https://brasilapi.com.br/api/cnpj/v1/'' @ cnpj"

text \<open>
  The loop \<^verbatim>\<open>while True\<close> of \<^verbatim>\<open>consulta_brasilapi\<close>, from the value of
  \<^verbatim>\<open>tentativas\<close> and the events so far; it returns the dict, or the exception that
  leaves the function, and the events. A body of status 200 that does not decode raises
  \<^verbatim>\<open>requests.JSONDecodeError\<close>, a \<^verbatim>\<open>RequestException\<close> (requests 2.27 and later), so
  the handler of the transport failures takes it.
\<close>

function consulta_loop ::
  "runtime \<Rightarrow> string \<Rightarrow> nat \<Rightarrow> event list \<Rightarrow> (py_error + lookup) \<times> event list" where
  "consulta_loop rt cnpj tentativas w =
     (let url = url_of cnpj;
          r = http_get rt (n_requests w) url;
          w1 = w @ [Get url];
          falha = (\<lambda>e.
            if tentativas + 1 > MAX_RETRIES
            then (Inr (registro_status cnpj (''Erro de rede: '' @ e)), w1)
            else consulta_loop rt cnpj (tentativas + 1)
                   (w1 @ [Sleep (BACKOFF_BASE * 2 ^ (tentativas + 1 - 1))]))
      in case r of
           TransportError e \<Rightarrow> falha e
         | Response status body \<Rightarrow>
             if status = 200 then
               (case body of
                  Inl e \<Rightarrow> falha e
                | Inr v \<Rightarrow> (resposta_200 rt cnpj v, w1))
             else if status = 404 then
               (Inr (registro_status cnpj
                  (nao_encontrado @ '': '' @ mensagem rt body nao_encontrado nao_encontrado)), w1)
             else if status \<in> set [429, 500, 502, 503, 504] then
               (if tentativas + 1 > MAX_RETRIES
                then (Inr (registro_status cnpj
                        (erro_apos_retries @ mensagem rt body [] (''HTTP '' @ str_nat status))), w1)
                else consulta_loop rt cnpj (tentativas + 1)
                       (w1 @ [Sleep (BACKOFF_BASE * 2 ^ (tentativas + 1 - 1))]))
             else
               (Inr (registro_status cnpj
                  (''Erro: '' @ mensagem rt body [] (''HTTP '' @ str_nat status))), w1))"
  by pat_completeness auto
termination
  by (relation "measure (\<lambda>(rt, cnpj, tentativas, w). Suc MAX_RETRIES - tentativas)") auto

declare consulta_loop.simps [simp del]

definition consulta_brasilapi :: "runtime \<Rightarrow> string \<Rightarrow> event list \<Rightarrow> (py_error + lookup) \<times> event list" where
  "consulta_brasilapi rt cnpj w = consulta_loop rt cnpj 0 w"

section \<open>Pre-processing and lookup loop\<close>

text \<open>
  The pre-processing and the loop read one column of the input table, \<^verbatim>\<open>CNPJ\<close>. For
  them the table is the list of its rows, each the cell of that column and the rest of
  the row, which they never read. After the pre-processing a row holds the normalized
  identifier and the column \<^verbatim>\<open>_CNPJ_VALIDO\<close>.
\<close>

record 'a linha =
  col_cnpj :: string
  col_valido :: bool
  col_resto :: 'a

definition pre_processamento :: "runtime \<Rightarrow> (pyval \<times> 'a) list \<Rightarrow> 'a linha list" where
  "pre_processamento rt tabela =
     map (\<lambda>(celula, resto).
            \<lparr>col_cnpj = normaliza_cnpj rt celula,
             col_valido = cnpj_valido (normaliza_cnpj rt celula),
             col_resto = resto\<rparr>) tabela"

text \<open>The variables of the main loop, and the events of the run so far.\<close>

record estado =
  resultados_map :: "string \<rightharpoonup> lookup"
  ok :: nat
  inval :: nat
  err :: nat
  eventos :: "event list"

definition estado_inicial :: estado where
  "estado_inicial = \<lparr>resultados_map = Map.empty, ok = 0, inval = 0, err = 0, eventos = []\<rparr>"

text \<open>
  The body of the loop \<^verbatim>\<open>for cnpj in iterador\<close>, for one identifier. An exception
  that leaves \<^verbatim>\<open>consulta_brasilapi\<close> ends the run, and so does \<^verbatim>\<open>startswith\<close> on a
  legal name that is no string.
\<close>

definition iteracao :: "runtime \<Rightarrow> string \<Rightarrow> estado \<Rightarrow> py_error + estado" where
  "iteracao rt cnpj st =
     (if \<not> cnpj_valido cnpj then
        Inr (st\<lparr>inval := inval st + 1,
                resultados_map := (resultados_map st)(cnpj \<mapsto> registro_status cnpj cnpj_invalido_dv)\<rparr>)
      else
        (case consulta_brasilapi rt cnpj (eventos st @ [Lookup cnpj]) of
           (Inl e, w) \<Rightarrow> Inl e
         | (Inr res, w) \<Rightarrow>
             (case Razao_Social res of
                PStr nome \<Rightarrow>
                  Inr (if prefix ''Erro'' nome \<or> prefix nao_encontrado nome
                       then st\<lparr>resultados_map := (resultados_map st)(cnpj \<mapsto> res),
                               err := err st + 1,
                               eventos := w @ [Sleep SLEEP_ENTRE_CHAMADAS]\<rparr>
                       else st\<lparr>resultados_map := (resultados_map st)(cnpj \<mapsto> res),
                               ok := ok st + 1,
                               eventos := w @ [Sleep SLEEP_ENTRE_CHAMADAS]\<rparr>)
              | _ \<Rightarrow> Inl AttributeError)))"

text \<open>The loop over the identifiers, in their order; it stops at the first exception.\<close>

fun consultas :: "runtime \<Rightarrow> string list \<Rightarrow> estado \<Rightarrow> py_error + estado" where
  "consultas rt [] st = Inr st"
| "consultas rt (cnpj # resto) st =
     (case iteracao rt cnpj st of
        Inl e \<Rightarrow> Inl e
      | Inr st1 \<Rightarrow> consultas rt resto st1)"

text \<open>\<^verbatim>\<open>lista_todos = df[COLUNA_CNPJ].tolist()\<close> and \<^verbatim>\<open>lista_unicos = sorted(set(lista_todos))\<close>.\<close>

definition lista_todos :: "'a linha list \<Rightarrow> string list" where
  "lista_todos df = map col_cnpj df"

definition lista_unicos :: "'a linha list \<Rightarrow> string list" where
  "lista_unicos df = sort (remdups (lista_todos df))"

section \<open>Tables\<close>

text \<open>
  A pandas \<^verbatim>\<open>DataFrame\<close> is its column labels, in order, and its rows, each the cells
  of the row in the order of the labels. The labels are strings. A cell holds the Python
  value put into it; the storage type pandas picks for a column (an \<^verbatim>\<open>int\<close> kept as a
  float beside a float) is outside the model.

  The table that \<^verbatim>\<open>read_excel\<close> returns has distinct labels (it renames a repeated
  header) and no missing value (\<^verbatim>\<open>keep_default_na=False\<close>). A table made by \<^verbatim>\<open>merge\<close>
  or \<^verbatim>\<open>reindex\<close> can have missing cells (\<^verbatim>\<open>NaN\<close>), here \<open>None\<close>.
\<close>

record planilha =
  colunas :: "string list"
  linhas :: "pyval list list"

record quadro =
  rotulos :: "string list"
  celulas :: "pyval option list list"

text \<open>The cell of a row under a label: that of the first column so labelled, if any.\<close>

definition valor :: "string list \<Rightarrow> pyval option list \<Rightarrow> string \<Rightarrow> pyval option" where
  "valor rot r n = (case map_of (zip rot r) n of Some c \<Rightarrow> c | None \<Rightarrow> None)"

text \<open>
  The rows of the sheet as the pre-processing reads them: the cell of the column
  \<^verbatim>\<open>CNPJ\<close>, and the whole row as the rest.
\<close>

definition celula_cnpj :: "planilha \<Rightarrow> pyval list \<Rightarrow> pyval" where
  "celula_cnpj p r = (case map_of (zip (colunas p) r) COLUNA_CNPJ of Some v \<Rightarrow> v | None \<Rightarrow> PNone)"

definition tabela_de :: "planilha \<Rightarrow> (pyval \<times> pyval list) list" where
  "tabela_de p = map (\<lambda>r. (celula_cnpj p r, r)) (linhas p)"

text \<open>
  The table \<^verbatim>\<open>df\<close> after the pre-processing. \<^verbatim>\<open>df[COLUNA_CNPJ] = ...\<close> replaces the
  cells of that column; \<^verbatim>\<open>df["_CNPJ_VALIDO"] = ...\<close> replaces the cells of a column of
  that label when the sheet has one and adds the column at the end otherwise.
\<close>

definition colunas_df :: "planilha \<Rightarrow> string list" where
  "colunas_df p =
     (if ''_CNPJ_VALIDO'' \<in> set (colunas p) then colunas p else colunas p @ [''_CNPJ_VALIDO''])"

definition celula_df :: "planilha \<Rightarrow> pyval list linha \<Rightarrow> string \<Rightarrow> pyval option" where
  "celula_df p l n =
     (if n = ''_CNPJ_VALIDO'' then Some (PBool (col_valido l))
      else if n = COLUNA_CNPJ then Some (PStr (col_cnpj l))
      else map_of (zip (colunas p) (col_resto l)) n)"

definition linha_df :: "planilha \<Rightarrow> pyval list linha \<Rightarrow> pyval option list" where
  "linha_df p l = map (celula_df p l) (colunas_df p)"

text \<open>
  The keys of the dict that \<^verbatim>\<open>consulta_brasilapi\<close> returns, in the order of the dict
  literals (the same in all six), and its values in that order. They are the columns of
  \<^verbatim>\<open>df_result = pd.DataFrame([resultados_map[c] for c in lista_unicos])\<close>.
\<close>

definition campos :: "string list" where
  "campos =
     [''CNPJ'',
      ''Raz'' @ [CHR 0xE3] @ ''o Social'',
      ''Nome Fantasia'',
      ''CNAE Principal'',
      ''Descri'' @ [CHR 0xE7, CHR 0xE3] @ ''o CNAE'',
      ''CNAE Secund'' @ [CHR 0xE1] @ ''rio (1'' @ [CHR 0xBA] @ '')'',
      ''Descri'' @ [CHR 0xE7, CHR 0xE3] @ ''o CNAE Secund'' @ [CHR 0xE1] @ ''rio (1'' @ [CHR 0xBA] @ '')'',
      ''Porte'',
      ''Capital Social'',
      ''Situa'' @ [CHR 0xE7, CHR 0xE3] @ ''o Cadastral'',
      ''Data Situa'' @ [CHR 0xE7, CHR 0xE3] @ ''o Cadastral'',
      ''Logradouro'',
      ''N'' @ [CHR 0xFA] @ ''mero'',
      ''Complemento'',
      ''Bairro'',
      ''Munic'' @ [CHR 0xED] @ ''pio'',
      ''UF'',
      ''CEP'',
      ''Endere'' @ [CHR 0xE7] @ ''o (formatado)'',
      ''E-mail'',
      ''Telefone 1'',
      ''Telefone 2'']"

definition valores :: "lookup \<Rightarrow> pyval list" where
  "valores res =
     [PStr (CNPJ res),
      Razao_Social res,
      Nome_Fantasia res,
      CNAE_Principal res,
      Descricao_CNAE res,
      CNAE_Secundario_1 res,
      Descricao_CNAE_Secundario_1 res,
      Porte res,
      Capital_Social res,
      Situacao_Cadastral res,
      Data_Situacao_Cadastral res,
      Logradouro res,
      Numero res,
      Complemento res,
      Bairro res,
      Municipio res,
      UF res,
      CEP res,
      Endereco_formatado res,
      E_mail res,
      Telefone_1 res,
      Telefone_2 res]"

definition itens :: "lookup \<Rightarrow> (string \<times> pyval) list" where
  "itens res = zip campos (valores res)"

text \<open>
  \<^verbatim>\<open>df.merge(df_result, how="left", left_on=COLUNA_CNPJ, right_on="CNPJ")\<close>, as pandas
  (2.0 and later) does it.
  \<^item> The right table is built from the list of dicts and has their keys as columns: from
    the empty list it has no column \<^verbatim>\<open>CNPJ\<close>, and the merge raises \<^verbatim>\<open>KeyError\<close>.
  \<^item> The two keys have the same label, so the result has one key column, the left one,
    and the right key column is dropped: the columns are those of the left table, then
    the other columns of the right table.
  \<^item> A label that a left column and one of these right columns share is renamed on both
    sides, with the suffixes \<^verbatim>\<open>_x\<close> and \<^verbatim>\<open>_y\<close>. When that gives one side a repeated
    label the merge raises \<^verbatim>\<open>MergeError\<close>.
  \<^item> The rows are those of the left table, in its order, each once for every row of the
    right table with the same key, and once with missing values when there is none.
\<close>

definition sufixo :: "string list \<Rightarrow> string \<Rightarrow> string \<Rightarrow> string" where
  "sufixo comuns s n = (if n \<in> set comuns then n @ s else n)"

definition merge_left :: "planilha \<Rightarrow> pyval list linha list \<Rightarrow> lookup list \<Rightarrow> py_error + quadro" where
  "merge_left p df df_result =
     (if df_result = [] then Inl KeyError
      else
        (let esq = colunas_df p;
             dir = tl campos;
             comuns = filter (\<lambda>n. n \<in> set dir) esq;
             rot_esq = map (sufixo comuns ''_x'') esq;
             rot_dir = map (sufixo comuns ''_y'') dir
         in if \<not> distinct rot_esq \<or> \<not> distinct rot_dir then Inl MergeError
            else
              Inr \<lparr>rotulos = rot_esq @ rot_dir,
                   celulas =
                     concat (map (\<lambda>l. case filter (\<lambda>r. CNPJ r = col_cnpj l) df_result of
                                         [] \<Rightarrow> [linha_df p l @ replicate (length dir) None]
                                       | ms \<Rightarrow> map (\<lambda>m. linha_df p l @ map Some (tl (valores m))) ms)
                                 df)\<rparr>))"

text \<open>
  \<^verbatim>\<open>q.reindex(columns=cols)\<close>: the table with the labels \<open>cols\<close>, each column that of
  \<open>q\<close> with that label, or a column of missing values when \<open>q\<close> has none. It returns
  \<open>q\<close> when \<open>cols\<close> are the labels of \<open>q\<close>, and raises \<^verbatim>\<open>ValueError\<close> when \<open>q\<close> has a
  repeated label.
\<close>

definition reindex :: "quadro \<Rightarrow> string list \<Rightarrow> py_error + quadro" where
  "reindex q cols =
     (if rotulos q = cols then Inr q
      else if \<not> distinct (rotulos q) then Inl ValueError
      else Inr \<lparr>rotulos = cols, celulas = map (\<lambda>r. map (valor (rotulos q) r) cols) (celulas q)\<rparr>)"

text \<open>The list literal of \<^verbatim>\<open>cols_saida\<close>, and \<^verbatim>\<open>cols_saida\<close>.\<close>

definition colunas_consulta :: "string list" where
  "colunas_consulta =
     [''_CNPJ_VALIDO'',
      ''Raz'' @ [CHR 0xE3] @ ''o Social'',
      ''Nome Fantasia'',
      ''CNAE Principal'',
      ''Descri'' @ [CHR 0xE7, CHR 0xE3] @ ''o CNAE'',
      ''CNAE Secund'' @ [CHR 0xE1] @ ''rio (1'' @ [CHR 0xBA] @ '')'',
      ''Descri'' @ [CHR 0xE7, CHR 0xE3] @ ''o CNAE Secund'' @ [CHR 0xE1] @ ''rio (1'' @ [CHR 0xBA] @ '')'',
      ''Porte'',
      ''Capital Social'',
      ''Situa'' @ [CHR 0xE7, CHR 0xE3] @ ''o Cadastral'',
      ''Data Situa'' @ [CHR 0xE7, CHR 0xE3] @ ''o Cadastral'',
      ''Endere'' @ [CHR 0xE7] @ ''o (formatado)'',
      ''Logradouro'',
      ''N'' @ [CHR 0xFA] @ ''mero'',
      ''Complemento'',
      ''Bairro'',
      ''Munic'' @ [CHR 0xED] @ ''pio'',
      ''UF'',
      ''CEP'',
      ''E-mail'',
      ''Telefone 1'',
      ''Telefone 2'']"

definition cols_saida :: "planilha \<Rightarrow> string list" where
  "cols_saida p = filter (\<lambda>c. c \<noteq> ''_CNPJ_VALIDO'') (colunas_df p) @ colunas_consulta"

text \<open>
  The script from the check of the column to the table it writes: the final table and
  the state of the loop (the three counters of the summary, the events of the run). A key
  that \<^verbatim>\<open>resultados_map\<close> does not hold raises \<^verbatim>\<open>KeyError\<close>.
\<close>

definition enrich :: "runtime \<Rightarrow> planilha \<Rightarrow> py_error + (quadro \<times> estado)" where
  "enrich rt p =
     (if COLUNA_CNPJ \<notin> set (colunas p) then Inl KeyError
      else
        (let df = pre_processamento rt (tabela_de p) in
         case consultas rt (lista_unicos df) estado_inicial of
           Inl e \<Rightarrow> Inl e
         | Inr st \<Rightarrow>
             (case those (map (resultados_map st) (lista_unicos df)) of
                None \<Rightarrow> Inl KeyError
              | Some df_result \<Rightarrow>
                  (case merge_left p df df_result of
                     Inl e \<Rightarrow> Inl e
                   | Inr df_merged \<Rightarrow>
                       (case reindex df_merged (cols_saida p) of
                          Inl e \<Rightarrow> Inl e
                        | Inr df_final \<Rightarrow> Inr (df_final, st))))))"

section \<open>Provider protocol\<close>

text \<open>
  A provider that keeps to its protocol: the body of a response of status 200 is a JSON
  object (or a false value, read as the empty object) whose legal name is a string and
  whose address parts are strings or false values. It is what keeps the script from
  raising on a response.
\<close>

definition str_or_falsy :: "pyval \<Rightarrow> bool" where
  "str_or_falsy v = (case v of PStr s \<Rightarrow> True | _ \<Rightarrow> \<not> truthy v)"

definition body_ok :: "pyval \<Rightarrow> bool" where
  "body_ok v =
     (case py_or v (PDict []) of
        PDict data \<Rightarrow>
          list_all (\<lambda>k. str_or_falsy (dict_get data k (PStr [])))
            [''logradouro'', ''numero'', ''complemento'', ''bairro'', ''municipio'', ''uf'']
          \<and> (case dict_get data ''razao_social'' (PStr []) of PStr s \<Rightarrow> True | _ \<Rightarrow> False)
      | _ \<Rightarrow> False)"

definition provider_ok :: "runtime \<Rightarrow> bool" where
  "provider_ok rt = (\<forall>i url v. http_get rt i url = Response 200 (Inr v) \<longrightarrow> body_ok v)"

section \<open>Vocabulary of the statements\<close>

text \<open>The status codes of the retry branch of \<^verbatim>\<open>consulta_brasilapi\<close>.\<close>

definition retryable :: "nat \<Rightarrow> bool" where
  "retryable s = (s \<in> set [429, 500, 502, 503, 504])"

text \<open>
  The events of \<open>k\<close> failed attempts in a row, starting with \<^verbatim>\<open>tentativas\<close> at \<open>t\<close>:
  each a request followed by the sleep of \<^verbatim>\<open>BACKOFF_BASE * (2 ** (tentativas - 1))\<close>
  seconds, for the value of \<^verbatim>\<open>tentativas\<close> after the attempt.
\<close>

definition backoff_trace :: "string \<Rightarrow> nat \<Rightarrow> nat \<Rightarrow> event list" where
  "backoff_trace url t k =
     concat (map (\<lambda>attempt. [Get url, Sleep (BACKOFF_BASE * 2 ^ (attempt - 1))])
               [Suc t..<Suc (t + k)])"

text \<open>
  The bodies of status 200 from which \<^verbatim>\<open>consulta_brasilapi\<close> builds its dict without
  raising: a JSON object, or a false value (read as the empty object), whose address parts
  are strings or false values, so that \<^verbatim>\<open>join\<close> gets strings only.
\<close>

definition corpo_ok :: "pyval \<Rightarrow> bool" where
  "corpo_ok v =
     (case py_or v (PDict []) of
        PDict data \<Rightarrow>
          list_all (\<lambda>k. str_or_falsy (dict_get data k (PStr [])))
            [''logradouro'', ''numero'', ''complemento'', ''bairro'', ''municipio'', ''uf'']
      | _ \<Rightarrow> False)"

text \<open>The identifiers for which the main loop called \<^verbatim>\<open>consulta_brasilapi\<close>, in order.\<close>

definition lookups :: "event list \<Rightarrow> string list" where
  "lookups w = [c. Lookup c \<leftarrow> w]"

text \<open>
  The test of the summary, \<^verbatim>\<open>res["Razao Social"].startswith(("Erro", "Nao encontrado"))\<close>
  (both with their accents), on a record whose legal name is a string.
\<close>

definition nome_erro :: "lookup \<Rightarrow> bool" where
  "nome_erro res =
     (case Razao_Social res of
        PStr nome \<Rightarrow> prefix ''Erro'' nome \<or> prefix nao_encontrado nome
      | _ \<Rightarrow> False)"

text \<open>
  A sheet as \<^verbatim>\<open>read_excel\<close> gives it to the script when the script goes past its
  check of the column: distinct labels, \<^verbatim>\<open>CNPJ\<close> among them, and as many cells in
  each row as there are labels.
\<close>

definition planilha_ok :: "planilha \<Rightarrow> bool" where
  "planilha_ok p =
     (COLUNA_CNPJ \<in> set (colunas p) \<and> distinct (colunas p)
      \<and> list_all (\<lambda>r. length r = length (colunas p)) (linhas p))"

text \<open>
  No column of the sheet bears the label of a column that the merge adds (a key of the
  dict of \<^verbatim>\<open>consulta_brasilapi\<close> other than \<^verbatim>\<open>CNPJ\<close>).
\<close>

definition sem_conflito :: "planilha \<Rightarrow> bool" where
  "sem_conflito p = list_all (\<lambda>n. n \<notin> set (tl campos)) (colunas p)"

text \<open>
  Counts over the rows of the final table: the rows of an identifier that fails the
  checksum, and the rows whose legal name passes for a success in the test of the summary.
\<close>

definition linhas_invalidas :: "quadro \<Rightarrow> nat" where
  "linhas_invalidas df_final =
     length (filter (\<lambda>r. valor (rotulos df_final) r ''_CNPJ_VALIDO'' = Some (PBool False))
               (celulas df_final))"

definition linhas_sem_erro :: "quadro \<Rightarrow> nat" where
  "linhas_sem_erro df_final =
     length (filter (\<lambda>r. case valor (rotulos df_final) r (campos ! 1) of
                            Some (PStr nome) \<Rightarrow> \<not> (prefix ''Erro'' nome \<or> prefix nao_encontrado nome)
                          | _ \<Rightarrow> False)
               (celulas df_final))"

section \<open>Example runs\<close>

text \<open>A runtime with no network: every request fails, no float is converted.\<close>

definition rt_offline :: runtime where
  "rt_offline =
     \<lparr>http_get = (\<lambda>i url. TransportError ''offline''),
      float_int_str = (\<lambda>s. None),
      container_str = (\<lambda>v. [])\<rparr>"

text \<open>A provider that gives the same answer to every request.\<close>

definition rt_fixed :: "outcome \<Rightarrow> runtime" where
  "rt_fixed r =
     \<lparr>http_get = (\<lambda>i url. r), float_int_str = (\<lambda>s. None), container_str = (\<lambda>v. [])\<rparr>"

text \<open>A provider that gives one answer to the first \<open>k\<close> requests of the run, another after.\<close>

definition rt_flaky :: "nat \<Rightarrow> outcome \<Rightarrow> outcome \<Rightarrow> runtime" where
  "rt_flaky k r1 r2 =
     \<lparr>http_get = (\<lambda>i url. if i < k then r1 else r2),
      float_int_str = (\<lambda>s. None), container_str = (\<lambda>v. [])\<rparr>"

text \<open>Two tables; the second column numbers the rows.\<close>

definition tabela_repetida :: "(pyval \<times> nat) list" where
  "tabela_repetida = [(PStr ''11111111111111'', 1), (PStr ''11111111111111'', 2)]"

definition tabela_exemplo :: "(pyval \<times> nat) list" where
  "tabela_exemplo =
     [(PStr ''11.222.333/0001-81'', 1), (PStr ''123'', 2), (PStr ''11222333000181'', 3)]"

text \<open>
  The same tables as sheets, with a column that names the rows, and a sheet that
  already has a column of legal names.
\<close>

definition planilha_repetida :: planilha where
  "planilha_repetida =
     \<lparr>colunas = [''Filial'', ''CNPJ''],
      linhas = [[PStr ''A'', PStr ''11111111111111''], [PStr ''B'', PStr ''11111111111111'']]\<rparr>"

definition planilha_exemplo :: planilha where
  "planilha_exemplo =
     \<lparr>colunas = [''Filial'', ''CNPJ''],
      linhas = [[PStr ''A'', PStr ''11.222.333/0001-81''], [PStr ''B'', PStr ''123''],
                [PStr ''C'', PStr ''11222333000181'']]\<rparr>"

definition planilha_conflito :: planilha where
  "planilha_conflito =
     \<lparr>colunas = [''CNPJ'', ''Raz'' @ [CHR 0xE3] @ ''o Social''],
      linhas = [[PStr ''11.222.333/0001-81'', PStr ''ACME''], [PStr ''11222333000181'', PStr ''ACME'']]\<rparr>"

section \<open>Digits\<close>

lemma is_digit_cases:
  "is_digit c \<longleftrightarrow> c = CHR ''0'' \<or> c = CHR ''1'' \<or> c = CHR ''2'' \<or> c = CHR ''3'' \<or> c = CHR ''4'' \<or>
     c = CHR ''5'' \<or> c = CHR ''6'' \<or> c = CHR ''7'' \<or> c = CHR ''8'' \<or> c = CHR ''9''"
  by (auto simp: is_digit_def)

lemma digit_value_inj: "is_digit a \<Longrightarrow> is_digit b \<Longrightarrow> digit_value a = digit_value b \<Longrightarrow> a = b"
  by (auto simp: is_digit_cases digit_value_def)

lemma str_nat_digit: "n < 10 \<Longrightarrow> str_nat n = [''0123456789'' ! n]"
  by (simp add: str_nat.simps)

lemma digit_char:
  assumes "m < 10"
  shows "is_digit (''0123456789'' ! m) \<and> digit_value (''0123456789'' ! m) = int m"
proof -
  from assms have "m = 0 \<or> m = 1 \<or> m = 2 \<or> m = 3 \<or> m = 4 \<or> m = 5 \<or> m = 6 \<or> m = 7 \<or> m = 8 \<or> m = 9"
    by arith
  then show ?thesis
    by (auto simp: is_digit_def digit_value_def)
qed

lemma str_int_digit:
  assumes "0 \<le> d" "d \<le> 9"
  shows "\<exists>c. str_int d = [c] \<and> is_digit c \<and> digit_value c = d"
proof -
  from assms have n: "nat d < 10" by simp
  from digit_char[OF n] assms n show ?thesis
    by (simp add: str_int_def str_nat_digit)
qed

lemma apenas_digitos_id: "list_all is_digit s \<Longrightarrow> apenas_digitos s = s"
  by (simp add: apenas_digitos_def list_all_iff)

lemma apenas_digitos_all: "list_all is_digit (apenas_digitos s)"
  by (simp add: apenas_digitos_def list_all_iff)

section \<open>The checksum validator\<close>

text \<open>
  \<^verbatim>\<open>dv\<close> returns one character, a digit, whose value is the check digit of the
  specification.
\<close>

lemma dv_spec:
  "\<exists>c. dv nums pesos = [c] \<and> is_digit c \<and>
       digit_value c = spec_check_digit (map digit_value nums) pesos"
proof -
  have eq: "sum_list (map (\<lambda>(n, p). digit_value n * p) (zip nums pesos))
        = (\<Sum>(d, w) \<leftarrow> zip (map digit_value nums) pesos. d * w)"
    by (simp add: zip_map1 case_prod_unfold comp_def)
  define r where "r = (\<Sum>(d, w) \<leftarrow> zip (map digit_value nums) pesos. d * w) mod 11"
  have r: "0 \<le> r" "r < 11" by (simp_all add: r_def)
  show ?thesis
  proof (cases "r < 2")
    case True
    then show ?thesis
      unfolding dv_def spec_check_digit_def Let_def eq r_def[symmetric]
      by (simp add: is_digit_def digit_value_def)
  next
    case False
    with r have "0 \<le> 11 - r" "11 - r \<le> 9" by arith+
    from str_int_digit[OF this] False show ?thesis
      unfolding dv_def spec_check_digit_def Let_def eq r_def[symmetric]
      by simp
  qed
qed

lemma length_two: "length xs = 2 \<Longrightarrow> \<exists>a b. xs = [a, b]"
  by (auto simp: length_Suc_conv numeral_2_eq_2)

lemma cnpj_valido_digits:
  assumes len: "length s = 14" and dig: "list_all is_digit s" and rep: "s \<noteq> replicate 14 (hd s)"
  shows "cnpj_valido s = (map digit_value (drop 12 s) = [spec_first_digit s, spec_second_digit s])"
proof -
  obtain c1 where c1: "dv (take 12 s) p1 = [c1]" "is_digit c1"
      "digit_value c1 = spec_check_digit (map digit_value (take 12 s)) p1"
    using dv_spec by blast
  obtain c2 where c2: "dv (take 12 s @ [c1]) p2 = [c2]" "is_digit c2"
      "digit_value c2 = spec_check_digit (map digit_value (take 12 s @ [c1])) p2"
    using dv_spec by blast
  have v1: "digit_value c1 = spec_first_digit s"
    by (simp add: c1 spec_first_digit_def p1_def)
  have v2: "digit_value c2 = spec_second_digit s"
    by (simp add: c2 v1 spec_second_digit_def p2_def p1_def)
  from len have "length (drop 12 s) = 2" by simp
  then obtain a b where ab: "drop 12 s = [a, b]"
    using length_two by blast
  have "set (drop 12 s) \<subseteq> set s" by (rule set_drop_subset)
  with dig ab have da: "is_digit a" and db: "is_digit b"
    by (auto simp: list_all_iff)
  have "cnpj_valido s = (drop 12 s = [c1, c2])"
    using len rep by (simp add: cnpj_valido_def apenas_digitos_id[OF dig] Let_def c1 c2)
  also have "\<dots> = (a = c1 \<and> b = c2)" by (simp add: ab)
  also have "\<dots> = (digit_value a = digit_value c1 \<and> digit_value b = digit_value c2)"
    using digit_value_inj[OF da c1(2)] digit_value_inj[OF db c2(2)] by auto
  also have "\<dots> = (map digit_value (drop 12 s) = [spec_first_digit s, spec_second_digit s])"
    by (simp add: ab v1 v2)
  finally show ?thesis .
qed

text \<open>
  Claim C2. On a string of 14 digits that are not all the same, \<^const>\<open>cnpj_valido\<close>
  accepts exactly when the last two digits are the two check digits of the
  specification: the first from the first 12 digits with the weights 5,4,3,2,9,8,7,6,5,4,3,2,
  the second from those 12 digits followed by the first check digit, with the weights
  6,5,4,3,2,9,8,7,6,5,4,3,2. The published example 11222333000181 is accepted, and
  11222333000180 is rejected.
\<close>

theorem cnpj_valido_check_digits:
  "(length s = 14 \<and> list_all is_digit s \<and> s \<noteq> replicate 14 (hd s) \<longrightarrow>
      cnpj_valido s =
        (map digit_value (drop 12 s) = [spec_first_digit s, spec_second_digit s]))
   \<and> cnpj_valido ''11222333000181''
   \<and> \<not> cnpj_valido ''11222333000180''"
proof -
  have a: "cnpj_valido ''11222333000181''" by code_simp
  have b: "\<not> cnpj_valido ''11222333000180''" by code_simp
  have c: "length s = 14 \<and> list_all is_digit s \<and> s \<noteq> replicate 14 (hd s) \<longrightarrow>
      cnpj_valido s =
        (map digit_value (drop 12 s) = [spec_first_digit s, spec_second_digit s])"
    using cnpj_valido_digits[of s] by simp
  from a b c show ?thesis by simp
qed

theorem cnpj_valido_check_digits_witness:
  "length ''04252011000110'' = 14 \<and> list_all is_digit ''04252011000110''
   \<and> ''04252011000110'' \<noteq> replicate 14 (hd ''04252011000110'')
   \<and> map digit_value (drop 12 ''04252011000110'') =
       [spec_first_digit ''04252011000110'', spec_second_digit ''04252011000110'']
   \<and> cnpj_valido ''04252011000110''"
proof -
  have h: "length ''04252011000110'' = 14 \<and> list_all is_digit ''04252011000110''
      \<and> ''04252011000110'' \<noteq> replicate 14 (hd ''04252011000110'')"
    by code_simp
  have d: "map digit_value (drop 12 ''04252011000110'') =
      [spec_first_digit ''04252011000110'', spec_second_digit ''04252011000110'']"
    by code_simp
  from cnpj_valido_check_digits[of "''04252011000110''"] h d
  have "cnpj_valido ''04252011000110''" by blast
  with h d show ?thesis by blast
qed

text \<open>
  Claim C4. A string of 14 identical characters is rejected, whatever the character.
  The check-digit arithmetic alone would accept some of them: the last two digits of
  00000000000000 are its two check digits.
\<close>

theorem cnpj_valido_repunit:
  "\<not> cnpj_valido (replicate 14 c)
   \<and> map digit_value (drop 12 ''00000000000000'') =
       [spec_first_digit ''00000000000000'', spec_second_digit ''00000000000000'']"
proof -
  have "\<not> cnpj_valido (replicate 14 c)"
  proof (cases "is_digit c")
    case True
    then have "apenas_digitos (replicate 14 c) = replicate 14 c"
      by (simp add: apenas_digitos_def)
    then show ?thesis
      by (simp add: cnpj_valido_def)
  next
    case False
    then have "apenas_digitos (replicate 14 c) = []"
      by (simp add: apenas_digitos_def)
    then show ?thesis
      by (simp add: cnpj_valido_def)
  qed
  moreover have "map digit_value (drop 12 ''00000000000000'') =
       [spec_first_digit ''00000000000000'', spec_second_digit ''00000000000000'']"
    by code_simp
  ultimately show ?thesis by blast
qed

theorem cnpj_valido_repunit_witness:
  "\<not> cnpj_valido ''11111111111111'' \<and> \<not> cnpj_valido ''00000000000000''"
proof -
  have "replicate 14 CHR ''1'' = ''11111111111111''" "replicate 14 CHR ''0'' = ''00000000000000''"
    by code_simp+
  with cnpj_valido_repunit[of "CHR ''1''"] cnpj_valido_repunit[of "CHR ''0''"]
  show ?thesis by simp
qed

text \<open>
  Claim C9, as the code has it. \<^const>\<open>cnpj_valido\<close> first drops every character that
  is no digit and tests the length of what is left: a string is rejected when the number
  of its digits is not 14. The length of the string itself does not decide: the
  punctuated form 11.222.333/0001-81 has 18 characters and is accepted.
\<close>

theorem cnpj_valido_length:
  "length (apenas_digitos s) \<noteq> 14 \<Longrightarrow> \<not> cnpj_valido s"
  by (simp add: cnpj_valido_def)

theorem cnpj_valido_length_witness:
  "length (apenas_digitos ''1122233300018'') \<noteq> 14 \<and> \<not> cnpj_valido ''1122233300018''"
proof -
  have h: "length (apenas_digitos ''1122233300018'') \<noteq> 14" by code_simp
  from cnpj_valido_length[OF h] h show ?thesis by blast
qed

theorem cnpj_valido_length_counterexample:
  "length ''11.222.333/0001-81'' \<noteq> 14 \<and> cnpj_valido ''11.222.333/0001-81''"
  by code_simp

section \<open>The identifier normalizer\<close>

lemma zfill_digits:
  assumes "list_all is_digit t"
  shows "14 \<le> length (zfill 14 t) \<and> list_all is_digit (zfill 14 t)"
proof (cases "14 \<le> length t")
  case True
  with assms show ?thesis by (simp add: zfill_def)
next
  case False
  show ?thesis
  proof (cases t)
    case Nil
    then show ?thesis by (simp add: zfill_def is_digit_def list_all_iff)
  next
    case (Cons c u)
    with assms have "is_digit c" by simp
    then have "c \<noteq> CHR ''+''" "c \<noteq> CHR ''-''" by (auto simp: is_digit_def)
    with False Cons assms show ?thesis
      by (auto simp: zfill_def is_digit_def list_all_iff)
  qed
qed

lemma strip_subset: "set (strip s) \<subseteq> set s"
proof -
  have "set (strip s) \<subseteq> set (dropWhile is_space s)"
    unfolding strip_def using set_dropWhileD by fastforce
  also have "\<dots> \<subseteq> set s" using set_dropWhileD by fastforce
  finally show ?thesis .
qed

lemma sci_match_digit: "sci_match s \<Longrightarrow> list_ex is_digit s"
proof -
  assume "sci_match s"
  then have "takeWhile is_digit s \<noteq> []" by (simp add: sci_match_def Let_def)
  then obtain c u where "s = c # u" "is_digit c"
    by (cases s) (auto split: if_splits)
  then show ?thesis by simp
qed

lemma to_str_no_digits:
  assumes "\<not> list_ex is_digit (py_str rt x)"
  shows "apenas_digitos (to_str rt x) = []"
proof (cases "x = PNone")
  case True
  then show ?thesis by (simp add: to_str_def apenas_digitos_def)
next
  case False
  from assms strip_subset[of "py_str rt x"] have nd: "\<not> list_ex is_digit (strip (py_str rt x))"
    by (auto simp: list_ex_iff)
  then have "\<not> sci_match (strip (py_str rt x))" using sci_match_digit by blast
  with False nd show ?thesis
    by (auto simp: to_str_def apenas_digitos_def Let_def list_ex_iff filter_empty_conv)
qed

text \<open>
  Claim C5. \<^const>\<open>normaliza_cnpj\<close> is a total function of the cell and of the runtime:
  the only call that can raise, the float conversion, sits in a \<^verbatim>\<open>try\<close> whose handler
  keeps the text. Its result has at least 14 characters, all digits; when the text of the
  cell (\<^verbatim>\<open>str(x)\<close>, the string itself for a string) has no digit, the result is
  fourteen zeros.
\<close>

theorem normaliza_cnpj_digits:
  "14 \<le> length (normaliza_cnpj rt x) \<and> list_all is_digit (normaliza_cnpj rt x) \<and>
   (\<not> list_ex is_digit (py_str rt x) \<longrightarrow> normaliza_cnpj rt x = replicate 14 CHR ''0'')"
  using zfill_digits[OF apenas_digitos_all, of "to_str rt x"]
  by (auto simp: normaliza_cnpj_def to_str_no_digits zfill_def)

theorem normaliza_cnpj_digits_witness:
  "\<not> list_ex is_digit (py_str rt_offline (PStr ''n/a''))
   \<and> normaliza_cnpj rt_offline (PStr ''n/a'') = ''00000000000000''
   \<and> 14 \<le> length (normaliza_cnpj rt_offline (PStr ''n/a''))
   \<and> list_all is_digit (normaliza_cnpj rt_offline (PStr ''n/a''))"
proof -
  have h: "\<not> list_ex is_digit (py_str rt_offline (PStr ''n/a''))"
    by (simp add: py_str_def is_digit_def)
  have z: "replicate 14 CHR ''0'' = ''00000000000000''" by code_simp
  from normaliza_cnpj_digits[of rt_offline "PStr ''n/a''"] h z show ?thesis
    by (simp add: is_digit_def)
qed

section \<open>The registry client\<close>

lemma rt_fixed_get [simp]: "http_get (rt_fixed r) i url = r"
  by (simp add: rt_fixed_def)

lemma rt_flaky_get [simp]: "http_get (rt_flaky k r1 r2) i url = (if i < k then r1 else r2)"
  by (simp add: rt_flaky_def)

lemma n_requests_append: "n_requests (w @ v) = n_requests w + n_requests v"
  by (simp add: n_requests_def)

lemma n_requests_simps [simp]:
  "n_requests [] = 0"
  "n_requests (Get u # w) = Suc (n_requests w)"
  "n_requests (Sleep d # w) = n_requests w"
  "n_requests (Lookup c # w) = n_requests w"
  by (simp_all add: n_requests_def)

lemma retryable_not_200: "retryable s \<Longrightarrow> s \<noteq> 200 \<and> s \<noteq> 404"
  by (auto simp: retryable_def)

lemma consulta_loop_retry:
  assumes "http_get rt (n_requests w) (url_of cnpj) = Response s b" "retryable s"
    and "tentativas < MAX_RETRIES"
  shows "consulta_loop rt cnpj tentativas w =
         consulta_loop rt cnpj (Suc tentativas)
           (w @ [Get (url_of cnpj), Sleep (BACKOFF_BASE * 2 ^ tentativas)])"
  using assms retryable_not_200[OF assms(2)]
  by (subst consulta_loop.simps) (simp add: Let_def retryable_def)

lemma consulta_loop_exhausted:
  assumes "http_get rt (n_requests w) (url_of cnpj) = Response s b" "retryable s"
    and "\<not> tentativas < MAX_RETRIES"
  shows "consulta_loop rt cnpj tentativas w =
         (Inr (registro_status cnpj (erro_apos_retries @ mensagem rt b [] (''HTTP '' @ str_nat s))),
          w @ [Get (url_of cnpj)])"
  using assms retryable_not_200[OF assms(2)]
  by (subst consulta_loop.simps) (simp add: Let_def retryable_def)

lemma consulta_loop_200:
  assumes "http_get rt (n_requests w) (url_of cnpj) = Response 200 (Inr v)"
  shows "consulta_loop rt cnpj tentativas w = (resposta_200 rt cnpj v, w @ [Get (url_of cnpj)])"
  using assms
  by (subst consulta_loop.simps) (simp add: Let_def)

lemma consulta_loop_404:
  assumes "http_get rt (n_requests w) (url_of cnpj) = Response 404 b"
  shows "consulta_loop rt cnpj tentativas w =
     (Inr (registro_status cnpj (nao_encontrado @ '': '' @ mensagem rt b nao_encontrado nao_encontrado)),
      w @ [Get (url_of cnpj)])"
  using assms
  by (subst consulta_loop.simps) (simp add: Let_def)

lemma consulta_loop_other:
  assumes "http_get rt (n_requests w) (url_of cnpj) = Response s b"
    and "s \<noteq> 200" "s \<noteq> 404" "\<not> retryable s"
  shows "consulta_loop rt cnpj tentativas w =
     (Inr (registro_status cnpj (''Erro: '' @ mensagem rt b [] (''HTTP '' @ str_nat s))),
      w @ [Get (url_of cnpj)])"
  using assms
  by (subst consulta_loop.simps) (simp add: Let_def retryable_def)

lemma n_requests_backoff [simp]: "n_requests (backoff_trace url t k) = k"
  unfolding backoff_trace_def
  by (induction k) (simp_all add: n_requests_append)

lemma backoff_trace_Suc:
  "backoff_trace url t (Suc k) = [Get url, Sleep (BACKOFF_BASE * 2 ^ t)] @ backoff_trace url (Suc t) k"
  unfolding backoff_trace_def
  by (simp add: upt_rec[of "Suc t"])

lemma consulta_loop_retries:
  assumes "\<forall>i<k. \<exists>s b. http_get rt (n_requests w + i) (url_of cnpj) = Response s b \<and> retryable s"
    and "t + k \<le> MAX_RETRIES"
  shows "consulta_loop rt cnpj t w =
         consulta_loop rt cnpj (t + k) (w @ backoff_trace (url_of cnpj) t k)"
  using assms
proof (induction k arbitrary: t w)
  case 0
  then show ?case by (simp add: backoff_trace_def)
next
  case (Suc k)
  from Suc.prems(1) obtain s b where
    r: "http_get rt (n_requests w) (url_of cnpj) = Response s b" "retryable s"
    by force
  let ?w = "w @ [Get (url_of cnpj), Sleep (BACKOFF_BASE * 2 ^ t)]"
  have nw: "n_requests ?w = Suc (n_requests w)" by (simp add: n_requests_append)
  have "\<forall>i<k. \<exists>s b. http_get rt (n_requests ?w + i) (url_of cnpj) = Response s b \<and> retryable s"
  proof (intro allI impI)
    fix i assume "i < k"
    then have "Suc i < Suc k" by simp
    with Suc.prems(1) show "\<exists>s b. http_get rt (n_requests ?w + i) (url_of cnpj) = Response s b \<and> retryable s"
      unfolding nw by (metis add_Suc_right add_Suc)
  qed
  moreover from Suc.prems(2) have "Suc t + k \<le> MAX_RETRIES" by simp
  ultimately have "consulta_loop rt cnpj (Suc t) ?w =
      consulta_loop rt cnpj (Suc t + k) (?w @ backoff_trace (url_of cnpj) (Suc t) k)"
    by (rule Suc.IH)
  moreover from Suc.prems(2) have "t < MAX_RETRIES" by simp
  note consulta_loop_retry[OF r this]
  ultimately show ?case
    by (simp add: backoff_trace_Suc)
qed

lemma as_strs_Some: "list_all (\<lambda>v. \<exists>s. v = PStr s) vs \<Longrightarrow> \<exists>ss. as_strs vs = Some ss"
  by (induction vs rule: as_strs.induct) auto

lemma str_join_ok: "list_all (\<lambda>v. \<exists>s. v = PStr s) vs \<Longrightarrow> \<exists>t. str_join sep vs = Inr t"
  using as_strs_Some[of vs] by (auto simp: str_join_def)

lemma str_or_falsy_truthy: "str_or_falsy v \<Longrightarrow> truthy v \<Longrightarrow> \<exists>s. v = PStr s"
  by (cases v) (auto simp: str_or_falsy_def)

lemma filter_truthy_strs:
  "list_all str_or_falsy vs \<Longrightarrow> list_all (\<lambda>v. \<exists>s. v = PStr s) (filter truthy vs)"
  by (induction vs) (auto dest: str_or_falsy_truthy)

lemma endereco_formatado_ok:
  assumes "list_all (\<lambda>k. str_or_falsy (dict_get data k (PStr [])))
            [''logradouro'', ''numero'', ''complemento'', ''bairro'', ''municipio'', ''uf'']"
  shows "\<exists>t. endereco_formatado rt data = Inr t"
proof -
  let ?g = "\<lambda>k. dict_get data k (PStr [])"
  from assms have a: "list_all str_or_falsy [?g ''logradouro'', ?g ''numero'', ?g ''complemento'', ?g ''bairro'']"
    and b: "list_all str_or_falsy [?g ''municipio'', ?g ''uf'']"
    by simp_all
  from str_join_ok[OF filter_truthy_strs[OF b]] obtain cu where
    cu: "str_join '' - '' (filter truthy [?g ''municipio'', ?g ''uf'']) = Inr cu" by blast
  let ?p3 = "filter truthy [?g ''logradouro'', ?g ''numero'', ?g ''complemento'', ?g ''bairro'']
      @ (if cu \<noteq> [] then [PStr cu] else [])
      @ (if truthy (?g ''cep'') then [PStr (''CEP '' @ py_str rt (?g ''cep''))] else [])"
  have "list_all (\<lambda>v. \<exists>s. v = PStr s) (filter truthy ?p3)"
    using filter_truthy_strs[OF a] by (auto simp: list_all_iff)
  from str_join_ok[OF this] obtain t where "str_join '', '' (filter truthy ?p3) = Inr t" by blast
  with cu show ?thesis
    unfolding endereco_formatado_def Let_def by simp
qed

lemma resposta_200_corpo:
  assumes "corpo_ok v"
  shows "\<exists>res. resposta_200 rt cnpj v = Inr res \<and> CNPJ res = cnpj
           \<and> (\<forall>data. py_or v (PDict []) = PDict data \<longrightarrow>
                  Razao_Social res = dict_get data ''razao_social'' (PStr []))"
proof -
  from assms obtain data where d: "py_or v (PDict []) = PDict data"
    by (auto simp: corpo_ok_def split: pyval.splits)
  with assms have addr: "list_all (\<lambda>k. str_or_falsy (dict_get data k (PStr [])))
            [''logradouro'', ''numero'', ''complemento'', ''bairro'', ''municipio'', ''uf'']"
    by (simp add: corpo_ok_def)
  from endereco_formatado_ok[OF addr] obtain t where t: "endereco_formatado rt data = Inr t" by blast
  show ?thesis
    unfolding resposta_200_def d Let_def by (simp add: t)
qed

lemma body_ok_corpo: "body_ok v \<Longrightarrow> corpo_ok v"
  by (auto simp: body_ok_def corpo_ok_def split: pyval.splits)

lemma resposta_200_ok:
  assumes "body_ok v"
  shows "\<exists>res s. resposta_200 rt cnpj v = Inr res \<and> CNPJ res = cnpj \<and> Razao_Social res = PStr s"
proof -
  from assms obtain data s where d: "py_or v (PDict []) = PDict data"
    and s: "dict_get data ''razao_social'' (PStr []) = PStr s"
    by (auto simp: body_ok_def split: pyval.splits)
  from resposta_200_corpo[OF body_ok_corpo[OF assms], of rt cnpj] d s show ?thesis by auto
qed

lemma consulta_loop_200_falha:
  assumes "http_get rt (n_requests w) (url_of cnpj) = Response 200 (Inl e)"
    and "\<not> tentativas < MAX_RETRIES"
  shows "consulta_loop rt cnpj tentativas w =
         (Inr (registro_status cnpj (''Erro de rede: '' @ e)), w @ [Get (url_of cnpj)])"
  using assms
  by (subst consulta_loop.simps) (simp add: Let_def)

lemma str_nat_503: "str_nat 503 = ''503''"
  by code_simp

lemma backoff_trace_3:
  "backoff_trace url 0 MAX_RETRIES =
     [Get url, Sleep (BACKOFF_BASE * 2 ^ 0), Get url, Sleep (BACKOFF_BASE * 2 ^ 1),
      Get url, Sleep (BACKOFF_BASE * 2 ^ 2)]"
  by (simp add: backoff_trace_def MAX_RETRIES_def upt_rec)

lemma consulta_brasilapi_503s:
  assumes "\<forall>i<MAX_RETRIES. \<exists>b. http_get rt (n_requests w + i) (url_of cnpj) = Response 503 b"
  shows "consulta_brasilapi rt cnpj w =
           consulta_loop rt cnpj MAX_RETRIES (w @ backoff_trace (url_of cnpj) 0 MAX_RETRIES)"
    and "n_requests (w @ backoff_trace (url_of cnpj) 0 MAX_RETRIES) = n_requests w + MAX_RETRIES"
proof -
  have "retryable 503" by (simp add: retryable_def)
  with assms have "\<forall>i<MAX_RETRIES. \<exists>s b.
      http_get rt (n_requests w + i) (url_of cnpj) = Response s b \<and> retryable s"
    by blast
  from consulta_loop_retries[OF this, of 0]
  show "consulta_brasilapi rt cnpj w =
           consulta_loop rt cnpj MAX_RETRIES (w @ backoff_trace (url_of cnpj) 0 MAX_RETRIES)"
    by (simp add: consulta_brasilapi_def)
  show "n_requests (w @ backoff_trace (url_of cnpj) 0 MAX_RETRIES) = n_requests w + MAX_RETRIES"
    by (simp add: n_requests_append)
qed

text \<open>
  Claim C3, as the code has it. When the provider answers 503 to the first
  \<^verbatim>\<open>MAX_RETRIES\<close> requests of a lookup and 200 to the next one, with a body that decodes
  to a JSON object (or to a false value) whose address parts are strings or false
  values, \<^const>\<open>consulta_brasilapi\<close> returns the record that the branch of status 200
  builds from that body, with the legal name of the body, and no error record. When the
  provider answers 503 once more, it returns the record whose legal name is
  \<^verbatim>\<open>Erro apos retries: (with its accent) \<close> followed by the message. In both runs the
  events are the same: after each of the first three requests a sleep of
  \<^verbatim>\<open>BACKOFF_BASE * 2 ** (attempt - 1)\<close> seconds, then the fourth request, with no sleep
  after it.

  The claim puts no condition on the body of the 200. The branch of status 200 decodes
  the body inside the \<^verbatim>\<open>try\<close> whose handler retries on \<^verbatim>\<open>RequestException\<close>, with the
  same counter: a body that does not decode, coming after three 503, spends the fourth
  attempt and the lookup returns the record of a network error. A body that is a list
  has no \<^verbatim>\<open>get\<close>, and a house number that is an integer cannot be joined: the
  exception leaves the function.
\<close>

theorem consulta_retry_backoff:
  assumes "\<forall>i<MAX_RETRIES. \<exists>b. http_get rt (n_requests w + i) (url_of cnpj) = Response 503 b"
  shows "(http_get rt (n_requests w + MAX_RETRIES) (url_of cnpj) = Response 200 (Inr v)
            \<and> corpo_ok v \<longrightarrow>
            (\<exists>res. consulta_brasilapi rt cnpj w =
                     (Inr res, w @ backoff_trace (url_of cnpj) 0 MAX_RETRIES @ [Get (url_of cnpj)])
                 \<and> resposta_200 rt cnpj v = Inr res
                 \<and> CNPJ res = cnpj
                 \<and> (\<forall>data. py_or v (PDict []) = PDict data \<longrightarrow>
                        Razao_Social res = dict_get data ''razao_social'' (PStr []))))
       \<and> (http_get rt (n_requests w + MAX_RETRIES) (url_of cnpj) = Response 503 b \<longrightarrow>
            consulta_brasilapi rt cnpj w =
              (Inr (registro_status cnpj (erro_apos_retries @ mensagem rt b [] ''HTTP 503'')),
               w @ backoff_trace (url_of cnpj) 0 MAX_RETRIES @ [Get (url_of cnpj)]))
       \<and> backoff_trace (url_of cnpj) 0 MAX_RETRIES =
            [Get (url_of cnpj), Sleep (BACKOFF_BASE * 2 ^ (1 - 1)),
             Get (url_of cnpj), Sleep (BACKOFF_BASE * 2 ^ (2 - 1)),
             Get (url_of cnpj), Sleep (BACKOFF_BASE * 2 ^ (3 - 1))]"
proof -
  let ?u = "url_of cnpj"
  let ?w = "w @ backoff_trace ?u 0 MAX_RETRIES"
  have r503: "retryable 503" by (simp add: retryable_def)
  note loop = consulta_brasilapi_503s(1)[OF assms] and nw = consulta_brasilapi_503s(2)[OF assms]
  have a: "\<exists>res. consulta_brasilapi rt cnpj w = (Inr res, ?w @ [Get ?u])
                 \<and> resposta_200 rt cnpj v = Inr res
                 \<and> CNPJ res = cnpj
                 \<and> (\<forall>data. py_or v (PDict []) = PDict data \<longrightarrow>
                        Razao_Social res = dict_get data ''razao_social'' (PStr []))"
    if h: "http_get rt (n_requests w + MAX_RETRIES) ?u = Response 200 (Inr v)" and ok: "corpo_ok v"
  proof -
    from h have "consulta_brasilapi rt cnpj w = (resposta_200 rt cnpj v, ?w @ [Get ?u])"
      using consulta_loop_200[of rt ?w cnpj v MAX_RETRIES] loop nw by simp
    with resposta_200_corpo[OF ok, of rt cnpj] show ?thesis by auto
  qed
  have b: "consulta_brasilapi rt cnpj w =
      (Inr (registro_status cnpj (erro_apos_retries @ mensagem rt b [] ''HTTP 503'')), ?w @ [Get ?u])"
    if "http_get rt (n_requests w + MAX_RETRIES) ?u = Response 503 b"
    using consulta_loop_exhausted[of rt ?w cnpj 503 b MAX_RETRIES] that loop nw r503
    by (simp add: str_nat_503)
  have c: "backoff_trace ?u 0 MAX_RETRIES =
            [Get ?u, Sleep (BACKOFF_BASE * 2 ^ (1 - 1)), Get ?u, Sleep (BACKOFF_BASE * 2 ^ (2 - 1)),
             Get ?u, Sleep (BACKOFF_BASE * 2 ^ (3 - 1))]"
    by (simp add: backoff_trace_3)
  from a b c show ?thesis by simp
qed

theorem consulta_retry_backoff_counterexample:
  "consulta_brasilapi
      (rt_flaky 3 (Response 503 (Inl ''busy'')) (Response 200 (Inl ''Expecting value'')))
      ''11222333000181'' []
     = (Inr (registro_status ''11222333000181'' ''Erro de rede: Expecting value''),
        [Get (url_of ''11222333000181''), Sleep (4 / 5),
         Get (url_of ''11222333000181''), Sleep (8 / 5),
         Get (url_of ''11222333000181''), Sleep (16 / 5),
         Get (url_of ''11222333000181'')])
   \<and> fst (consulta_brasilapi
        (rt_flaky 3 (Response 503 (Inl ''busy'')) (Response 200 (Inr (PList [PInt 1]))))
        ''11222333000181'' [])
     = Inl AttributeError
   \<and> fst (consulta_brasilapi
        (rt_flaky 3 (Response 503 (Inl ''busy''))
           (Response 200 (Inr (PDict [(''razao_social'', PStr ''ACME LTDA''), (''numero'', PInt 12)]))))
        ''11222333000181'' [])
     = Inl TypeError"
proof -
  let ?busy = "Response 503 (Inl ''busy'')"
  let ?c = "''11222333000181''"
  let ?tr = "backoff_trace (url_of ?c) 0 MAX_RETRIES"
  have h: "\<forall>i<MAX_RETRIES. \<exists>b. http_get (rt_flaky 3 ?busy r) (n_requests [] + i) (url_of ?c) = Response 503 b"
    for r
    by (simp add: MAX_RETRIES_def)
  have g: "http_get (rt_flaky 3 ?busy r) (n_requests ([] @ ?tr)) (url_of ?c) = r" for r
    by (simp add: MAX_RETRIES_def)
  have n: "\<not> MAX_RETRIES < MAX_RETRIES" by simp
  have tr: "?tr =
      [Get (url_of ?c), Sleep (4 / 5), Get (url_of ?c), Sleep (8 / 5), Get (url_of ?c), Sleep (16 / 5)]"
    by (simp add: backoff_trace_3 BACKOFF_BASE_def)
  have a: "consulta_brasilapi (rt_flaky 3 ?busy (Response 200 (Inl ''Expecting value''))) ?c []
     = (Inr (registro_status ?c ''Erro de rede: Expecting value''), ?tr @ [Get (url_of ?c)])"
    using consulta_brasilapi_503s(1)[OF h] consulta_loop_200_falha[OF g n] by simp
  have l: "resposta_200 rt ?c (PList [PInt 1]) = Inl AttributeError" for rt
    by (simp add: resposta_200_def py_or_def)
  have b: "fst (consulta_brasilapi (rt_flaky 3 ?busy (Response 200 (Inr (PList [PInt 1])))) ?c [])
     = Inl AttributeError"
    using consulta_brasilapi_503s(1)[OF h] consulta_loop_200[OF g] by (simp add: l)
  have t: "resposta_200 rt ?c (PDict [(''razao_social'', PStr ''ACME LTDA''), (''numero'', PInt 12)])
      = Inl TypeError" for rt
    by (simp add: resposta_200_def py_or_def endereco_formatado_def dict_get_def str_join_def Let_def)
  have c: "fst (consulta_brasilapi (rt_flaky 3 ?busy
        (Response 200 (Inr (PDict [(''razao_social'', PStr ''ACME LTDA''), (''numero'', PInt 12)])))) ?c [])
     = Inl TypeError"
    using consulta_brasilapi_503s(1)[OF h] consulta_loop_200[OF g] by (simp add: t)
  from a b c show ?thesis by (simp add: tr)
qed

theorem consulta_retry_backoff_witness:
  "http_get (rt_flaky 3 (Response 503 (Inl ''busy''))
       (Response 200 (Inr (PDict [(''razao_social'', PStr ''ACME LTDA'')])))) 2
       (url_of ''11222333000181'') = Response 503 (Inl ''busy'')
   \<and> corpo_ok (PDict [(''razao_social'', PStr ''ACME LTDA'')])
   \<and> (\<exists>res. consulta_brasilapi (rt_flaky 3 (Response 503 (Inl ''busy''))
       (Response 200 (Inr (PDict [(''razao_social'', PStr ''ACME LTDA'')])))) ''11222333000181'' []
       = (Inr res,
          [Get (url_of ''11222333000181''), Sleep (4 / 5),
           Get (url_of ''11222333000181''), Sleep (8 / 5),
           Get (url_of ''11222333000181''), Sleep (16 / 5),
           Get (url_of ''11222333000181'')])
       \<and> Razao_Social res = PStr ''ACME LTDA'')
   \<and> consulta_brasilapi (rt_fixed (Response 503 (Inl ''busy''))) ''11222333000181'' []
       = (Inr (registro_status ''11222333000181'' (erro_apos_retries @ ''HTTP 503'')),
          [Get (url_of ''11222333000181''), Sleep (4 / 5),
           Get (url_of ''11222333000181''), Sleep (8 / 5),
           Get (url_of ''11222333000181''), Sleep (16 / 5),
           Get (url_of ''11222333000181'')])"
proof -
  let ?v = "PDict [(''razao_social'', PStr ''ACME LTDA'')]"
  let ?ok = "Response 200 (Inr ?v)"
  let ?busy = "Response 503 (Inl ''busy'')"
  let ?c = "''11222333000181''"
  have h0: "http_get (rt_flaky 3 ?busy ?ok) 2 (url_of ?c) = ?busy" by simp
  have h1: "\<forall>i<MAX_RETRIES. \<exists>b. http_get (rt_flaky 3 ?busy ?ok) (n_requests [] + i) (url_of ?c) = Response 503 b"
    by (simp add: MAX_RETRIES_def)
  have h2: "\<forall>i<MAX_RETRIES. \<exists>b. http_get (rt_fixed ?busy) (n_requests [] + i) (url_of ?c) = Response 503 b"
    by simp
  have g: "http_get (rt_flaky 3 ?busy ?ok) (n_requests [] + MAX_RETRIES) (url_of ?c) = ?ok"
    by (simp add: MAX_RETRIES_def)
  have ok: "corpo_ok ?v"
    by (simp add: corpo_ok_def py_or_def dict_get_def str_or_falsy_def)
  have d: "py_or ?v (PDict []) = ?v" by (simp add: py_or_def)
  have rs: "dict_get [(''razao_social'', PStr ''ACME LTDA'')] ''razao_social'' (PStr []) = PStr ''ACME LTDA''"
    by (simp add: dict_get_def)
  have tr: "backoff_trace (url_of ?c) 0 MAX_RETRIES =
      [Get (url_of ?c), Sleep (4 / 5), Get (url_of ?c), Sleep (8 / 5), Get (url_of ?c), Sleep (16 / 5)]"
    by (simp add: backoff_trace_3 BACKOFF_BASE_def)
  have m: "mensagem rt (Inl ''busy'') [] ''HTTP 503'' = ''HTTP 503''" for rt
    by (simp add: mensagem_def)
  from consulta_retry_backoff[OF h1, of ?v "Inl ''busy''"] g ok
  obtain res where
    r1: "consulta_brasilapi (rt_flaky 3 ?busy ?ok) ?c []
          = (Inr res, [] @ backoff_trace (url_of ?c) 0 MAX_RETRIES @ [Get (url_of ?c)])"
    and r2: "\<forall>data. py_or ?v (PDict []) = PDict data \<longrightarrow>
               Razao_Social res = dict_get data ''razao_social'' (PStr [])"
    by blast
  from r2 d rs have r3: "Razao_Social res = PStr ''ACME LTDA''" by simp
  from r1 r3 have a: "\<exists>res. consulta_brasilapi (rt_flaky 3 ?busy ?ok) ?c []
       = (Inr res, [Get (url_of ?c), Sleep (4 / 5), Get (url_of ?c), Sleep (8 / 5),
                    Get (url_of ?c), Sleep (16 / 5), Get (url_of ?c)])
       \<and> Razao_Social res = PStr ''ACME LTDA''"
    by (simp add: tr)
  from consulta_retry_backoff[OF h2, of "PDict []" "Inl ''busy''"] tr m
  have b: "consulta_brasilapi (rt_fixed ?busy) ?c []
       = (Inr (registro_status ?c (erro_apos_retries @ ''HTTP 503'')),
          [Get (url_of ?c), Sleep (4 / 5), Get (url_of ?c), Sleep (8 / 5),
           Get (url_of ?c), Sleep (16 / 5), Get (url_of ?c)])"
    by simp
  from h0 ok a b show ?thesis by simp
qed

lemma mensagem_present:
  "map_of d ''message'' = Some (PStr m) \<Longrightarrow> mensagem rt (Inr (PDict d)) padrao excecao = m"
  by (simp add: mensagem_def dict_get_def py_str_def)

text \<open>
  Claim C6. When the provider answers a request with a status that is neither 200 nor
  one of the retried ones (404, 400, ...), \<^const>\<open>consulta_brasilapi\<close> returns at once:
  the events of the lookup are that one request, with no sleep and no second request.
  The record holds the identifier, the empty string in every field but the legal name,
  and as legal name the prefix of the status (the not-found text and a colon for 404,
  \<^verbatim>\<open>Erro: \<close> otherwise) followed by the message; the message is the provider's
  \<^verbatim>\<open>message\<close> field when the body is an object that has one.
\<close>

theorem consulta_terminal_status:
  assumes "http_get rt (n_requests w) (url_of cnpj) = Response s b" and "s \<noteq> 200" and "\<not> retryable s"
  shows "consulta_brasilapi rt cnpj w =
           (Inr (registro_status cnpj
                   (if s = 404 then nao_encontrado @ '': '' @ mensagem rt b nao_encontrado nao_encontrado
                    else ''Erro: '' @ mensagem rt b [] (''HTTP '' @ str_nat s))),
            w @ [Get (url_of cnpj)])
       \<and> (\<forall>d m. b = Inr (PDict d) \<and> map_of d ''message'' = Some (PStr m) \<longrightarrow>
             mensagem rt b nao_encontrado nao_encontrado = m \<and>
             mensagem rt b [] (''HTTP '' @ str_nat s) = m)"
proof (cases "s = 404")
  case True
  with assms(1) consulta_loop_404[of rt w cnpj b 0] show ?thesis
    by (auto simp: consulta_brasilapi_def mensagem_present)
next
  case False
  with assms consulta_loop_other[of rt w cnpj s b 0] show ?thesis
    by (auto simp: consulta_brasilapi_def mensagem_present)
qed

theorem consulta_terminal_status_witness:
  "http_get (rt_fixed (Response 404 (Inr (PDict [(''message'', PStr ''CNPJ 11222333000181 not found'')]))))
      (n_requests []) (url_of ''11222333000181'')
     = Response 404 (Inr (PDict [(''message'', PStr ''CNPJ 11222333000181 not found'')]))
   \<and> (404::nat) \<noteq> 200 \<and> \<not> retryable 404
   \<and> consulta_brasilapi
        (rt_fixed (Response 404 (Inr (PDict [(''message'', PStr ''CNPJ 11222333000181 not found'')]))))
        ''11222333000181'' []
     = (Inr (registro_status ''11222333000181'' (nao_encontrado @ '': CNPJ 11222333000181 not found'')),
        [Get (url_of ''11222333000181'')])
   \<and> \<not> retryable 400
   \<and> consulta_brasilapi (rt_fixed (Response 400 (Inr (PDict [(''message'', PStr ''bad request'')]))))
        ''11222333000181'' []
     = (Inr (registro_status ''11222333000181'' ''Erro: bad request''),
        [Get (url_of ''11222333000181'')])"
proof -
  let ?b4 = "Inr (PDict [(''message'', PStr ''CNPJ 11222333000181 not found'')]) :: string + pyval"
  let ?b0 = "Inr (PDict [(''message'', PStr ''bad request'')]) :: string + pyval"
  let ?c = "''11222333000181''"
  have h1: "http_get (rt_fixed (Response 404 ?b4)) (n_requests []) (url_of ?c) = Response 404 ?b4"
    by simp
  have h2: "http_get (rt_fixed (Response 400 ?b0)) (n_requests []) (url_of ?c) = Response 400 ?b0"
    by simp
  have n4: "\<not> retryable 404" and n0: "\<not> retryable 400" by (simp_all add: retryable_def)
  have m4: "mensagem rt ?b4 x y = ''CNPJ 11222333000181 not found''" for rt x y
    by (simp add: mensagem_present)
  have m0: "mensagem rt ?b0 x y = ''bad request''" for rt x y
    by (simp add: mensagem_present)
  from consulta_terminal_status[OF h1 _ n4] m4
  have a: "consulta_brasilapi (rt_fixed (Response 404 ?b4)) ?c []
     = (Inr (registro_status ?c (nao_encontrado @ '': CNPJ 11222333000181 not found'')), [Get (url_of ?c)])"
    by simp
  from consulta_terminal_status[OF h2 _ n0] m0
  have b: "consulta_brasilapi (rt_fixed (Response 400 ?b0)) ?c []
     = (Inr (registro_status ?c ''Erro: bad request''), [Get (url_of ?c)])"
    by simp
  from h1 n4 n0 a b show ?thesis by simp
qed

text \<open>
  Claim C7, evaluated on the code. The status code stands in for the message only when
  the body does not decode (or is no object): there the legal name is \<^verbatim>\<open>Erro: HTTP 400\<close>.
  When the body is a JSON object without a \<^verbatim>\<open>message\<close> field, \<^verbatim>\<open>get\<close> returns its
  default, the empty string, and the legal name is the bare prefix, on the terminal
  branch (status 400) and on the exhausted retries (status 503) alike.
\<close>

theorem consulta_sem_message:
  "consulta_brasilapi (rt_fixed (Response 400 (Inr (PDict [])))) ''11222333000181'' []
     = (Inr (registro_status ''11222333000181'' ''Erro: ''), [Get (url_of ''11222333000181'')])
   \<and> fst (consulta_brasilapi (rt_fixed (Response 503 (Inr (PDict [])))) ''11222333000181'' [])
     = Inr (registro_status ''11222333000181'' erro_apos_retries)
   \<and> consulta_brasilapi (rt_fixed (Response 400 (Inl ''no JSON''))) ''11222333000181'' []
     = (Inr (registro_status ''11222333000181'' ''Erro: HTTP 400''), [Get (url_of ''11222333000181'')])"
proof -
  let ?c = "''11222333000181''"
  have n0: "\<not> retryable 400" by (simp add: retryable_def)
  have r503: "retryable 503" by (simp add: retryable_def)
  have s: "str_nat 400 = ''400''" by code_simp
  have m: "mensagem rt (Inr (PDict [])) [] y = []" for rt y
    by (simp add: mensagem_def dict_get_def py_str_def)
  have m2: "mensagem rt (Inl ''no JSON'') [] ''HTTP 400'' = ''HTTP 400''" for rt
    by (simp add: mensagem_def)
  have a: "consulta_brasilapi (rt_fixed (Response 400 (Inr (PDict [])))) ?c []
     = (Inr (registro_status ?c ''Erro: ''), [Get (url_of ?c)])"
    using consulta_loop_other[of "rt_fixed (Response 400 (Inr (PDict [])))" "[]" ?c 400 "Inr (PDict [])" 0] n0
    by (simp add: consulta_brasilapi_def m)
  have "consulta_loop (rt_fixed (Response 400 (Inl ''no JSON''))) ?c 0 []
     = (Inr (registro_status ?c (''Erro: '' @ mensagem (rt_fixed (Response 400 (Inl ''no JSON'')))
           (Inl ''no JSON'') [] (''HTTP '' @ str_nat 400))), [] @ [Get (url_of ?c)])"
    by (rule consulta_loop_other) (simp_all add: n0)
  then have c: "consulta_brasilapi (rt_fixed (Response 400 (Inl ''no JSON''))) ?c []
     = (Inr (registro_status ?c ''Erro: HTTP 400''), [Get (url_of ?c)])"
    unfolding s consulta_brasilapi_def by (simp add: m2)
  let ?rt = "rt_fixed (Response 503 (Inr (PDict [])))"
  have "\<forall>i<MAX_RETRIES. \<exists>s b. http_get ?rt (n_requests [] + i) (url_of ?c) = Response s b \<and> retryable s"
    using r503 by simp
  from consulta_loop_retries[OF this, of 0]
  have l: "consulta_brasilapi ?rt ?c [] =
      consulta_loop ?rt ?c MAX_RETRIES (backoff_trace (url_of ?c) 0 MAX_RETRIES)"
    by (simp add: consulta_brasilapi_def)
  have "fst (consulta_loop ?rt ?c MAX_RETRIES (backoff_trace (url_of ?c) 0 MAX_RETRIES))
      = Inr (registro_status ?c erro_apos_retries)"
    using consulta_loop_exhausted[of ?rt "backoff_trace (url_of ?c) 0 MAX_RETRIES" ?c 503 "Inr (PDict [])" MAX_RETRIES] r503
    by (simp add: m)
  with l have b: "fst (consulta_brasilapi ?rt ?c []) = Inr (registro_status ?c erro_apos_retries)"
    by simp
  from a b c show ?thesis by simp
qed

theorem consulta_sem_message_witness:
  "map_sum id Razao_Social
     (fst (consulta_brasilapi (rt_fixed (Response 400 (Inr (PDict [])))) ''11222333000181'' []))
     = Inr (PStr ''Erro: '')
   \<and> map_sum id Razao_Social
     (fst (consulta_brasilapi (rt_fixed (Response 400 (Inl ''no JSON''))) ''11222333000181'' []))
     = Inr (PStr ''Erro: HTTP 400'')"
  using consulta_sem_message by (simp add: registro_status_def)


section \<open>The enrichment pipeline\<close>

lemma lookups_simps [simp]:
  "lookups [] = []"
  "lookups (Get u # w) = lookups w"
  "lookups (Sleep d # w) = lookups w"
  "lookups (Lookup c # w) = c # lookups w"
  "lookups (w @ v) = lookups w @ lookups v"
  by (simp_all add: lookups_def)

lemma registro_status_sel [simp]:
  "CNPJ (registro_status c n) = c" "Razao_Social (registro_status c n) = PStr n"
  by (simp_all add: registro_status_def)

lemma resposta_200_CNPJ: "resposta_200 rt cnpj v = Inr res \<Longrightarrow> CNPJ res = cnpj"
  by (auto simp: resposta_200_def Let_def split: pyval.splits sum.splits)

lemma consulta_loop_inv:
  "case consulta_loop rt cnpj t w of
     (r, w') \<Rightarrow> lookups w' = lookups w
       \<and> (\<forall>res. r = Inr res \<longrightarrow> CNPJ res = cnpj)
       \<and> (provider_ok rt \<longrightarrow> (\<exists>res s. r = Inr res \<and> Razao_Social res = PStr s))"
proof (induction rt cnpj t w rule: consulta_loop.induct)
  case (1 rt cnpj t w)
  let ?w1 = "w @ [Get (url_of cnpj)]"
  let ?w2 = "?w1 @ [Sleep (BACKOFF_BASE * 2 ^ (t + 1 - 1))]"
  have rec: "case consulta_loop rt cnpj (t + 1) ?w2 of
     (r, w') \<Rightarrow> lookups w' = lookups w
       \<and> (\<forall>res. r = Inr res \<longrightarrow> CNPJ res = cnpj)
       \<and> (provider_ok rt \<longrightarrow> (\<exists>res s. r = Inr res \<and> Razao_Social res = PStr s))"
    if "\<not> t + 1 > MAX_RETRIES"
      and "(\<exists>e. http_get rt (n_requests w) (url_of cnpj) = TransportError e)
        \<or> (\<exists>e. http_get rt (n_requests w) (url_of cnpj) = Response 200 (Inl e))
        \<or> (\<exists>s b. http_get rt (n_requests w) (url_of cnpj) = Response s b \<and> s \<noteq> 200 \<and> s \<noteq> 404
              \<and> s \<in> set [429, 500, 502, 503, 504])"
    using that "1.IH" by (auto split: prod.splits)
  show ?case
  proof (cases "http_get rt (n_requests w) (url_of cnpj)")
    case (TransportError e)
    then show ?thesis
      using rec by (subst consulta_loop.simps) (auto simp: Let_def)
  next
    case (Response s b)
    show ?thesis
    proof (cases "s = 200")
      case True
      show ?thesis
      proof (cases b)
        case (Inl e)
        with Response True show ?thesis
          using rec by (subst consulta_loop.simps) (auto simp: Let_def)
      next
        case (Inr v)
        have "provider_ok rt \<Longrightarrow> body_ok v"
          using Response True Inr by (auto simp: provider_ok_def)
        then have "provider_ok rt \<Longrightarrow> \<exists>res s. resposta_200 rt cnpj v = Inr res \<and> Razao_Social res = PStr s"
          using resposta_200_ok[of v rt cnpj] by blast
        with Response True Inr show ?thesis
          by (subst consulta_loop.simps) (auto simp: Let_def resposta_200_CNPJ)
      qed
    next
      case False
      with Response show ?thesis
        using rec by (subst consulta_loop.simps) (auto simp: Let_def)
    qed
  qed
qed

lemma consulta_brasilapi_inv:
  assumes "consulta_brasilapi rt cnpj w = (r, w')"
  shows "lookups w' = lookups w" and "r = Inr res \<Longrightarrow> CNPJ res = cnpj"
    and "provider_ok rt \<Longrightarrow> \<exists>res s. r = Inr res \<and> Razao_Social res = PStr s"
  using consulta_loop_inv[where rt=rt and cnpj=cnpj and t=0 and w=w] assms
  by (auto simp: consulta_brasilapi_def)

lemma iteracao_Inr:
  assumes "iteracao rt c st = Inr st1"
  shows "\<exists>res. CNPJ res = c
      \<and> resultados_map st1 = (resultados_map st)(c \<mapsto> res)
      \<and> (\<not> cnpj_valido c \<longrightarrow> res = registro_status c cnpj_invalido_dv)
      \<and> inval st1 = inval st + (if \<not> cnpj_valido c then 1 else 0)
      \<and> err st1 = err st + (if cnpj_valido c \<and> nome_erro res then 1 else 0)
      \<and> ok st1 = ok st + (if cnpj_valido c \<and> \<not> nome_erro res then 1 else 0)
      \<and> lookups (eventos st1) = lookups (eventos st) @ (if cnpj_valido c then [c] else [])"
proof (cases "cnpj_valido c")
  case False
  with assms show ?thesis
    by (auto simp: iteracao_def)
next
  case True
  obtain r w where cw: "consulta_brasilapi rt c (eventos st @ [Lookup c]) = (r, w)"
    by (cases "consulta_brasilapi rt c (eventos st @ [Lookup c])")
  with assms True obtain res nome where r: "r = Inr res" and n: "Razao_Social res = PStr nome"
    by (auto simp: iteracao_def split: sum.splits pyval.splits)
  from consulta_brasilapi_inv(1,2)[OF cw] r
  have l: "lookups w = lookups (eventos st) @ [c]" and k: "CNPJ res = c" by simp_all
  from assms True cw r n l k show ?thesis
    by (auto simp: iteracao_def nome_erro_def split: if_splits)
qed

lemma iteracao_total:
  assumes "provider_ok rt"
  shows "\<exists>st1. iteracao rt c st = Inr st1"
proof (cases "cnpj_valido c")
  case False
  then show ?thesis by (simp add: iteracao_def)
next
  case True
  obtain r w where cw: "consulta_brasilapi rt c (eventos st @ [Lookup c]) = (r, w)"
    by (cases "consulta_brasilapi rt c (eventos st @ [Lookup c])")
  from consulta_brasilapi_inv(3)[OF cw assms] obtain res s where
    "r = Inr res" "Razao_Social res = PStr s" by blast
  with True cw show ?thesis
    by (simp add: iteracao_def)
qed

lemma consultas_total:
  "provider_ok rt \<Longrightarrow> \<exists>st'. consultas rt cs st = Inr st'"
proof (induction cs arbitrary: st)
  case Nil
  then show ?case by simp
next
  case (Cons c cs)
  from iteracao_total[OF Cons.prems] obtain st1 where "iteracao rt c st = Inr st1" by blast
  with Cons.IH[OF Cons.prems, of st1] show ?case by simp
qed

lemma consultas_inv:
  assumes "consultas rt cs st = Inr st'" and "distinct cs"
  shows "dom (resultados_map st') = dom (resultados_map st) \<union> set cs
      \<and> (\<forall>c. c \<notin> set cs \<longrightarrow> resultados_map st' c = resultados_map st c)
      \<and> (\<forall>c\<in>set cs. \<exists>res. resultados_map st' c = Some res \<and> CNPJ res = c
            \<and> (\<not> cnpj_valido c \<longrightarrow> res = registro_status c cnpj_invalido_dv))
      \<and> inval st' = inval st + length (filter (\<lambda>c. \<not> cnpj_valido c) cs)
      \<and> err st' = err st
           + length (filter (\<lambda>c. cnpj_valido c \<and> nome_erro (the (resultados_map st' c))) cs)
      \<and> ok st' = ok st
           + length (filter (\<lambda>c. cnpj_valido c \<and> \<not> nome_erro (the (resultados_map st' c))) cs)
      \<and> lookups (eventos st') = lookups (eventos st) @ filter cnpj_valido cs"
  using assms
proof (induction cs arbitrary: st)
  case Nil
  then show ?case by simp
next
  case (Cons c cs)
  from Cons.prems(1) obtain st1 where it: "iteracao rt c st = Inr st1"
    and rest: "consultas rt cs st1 = Inr st'"
    by (auto split: sum.splits)
  from Cons.prems(2) have dc: "distinct cs" and nc: "c \<notin> set cs" by simp_all
  from iteracao_Inr[OF it] obtain res where res: "CNPJ res = c"
      "resultados_map st1 = (resultados_map st)(c \<mapsto> res)"
      "\<not> cnpj_valido c \<longrightarrow> res = registro_status c cnpj_invalido_dv"
      "inval st1 = inval st + (if \<not> cnpj_valido c then 1 else 0)"
      "err st1 = err st + (if cnpj_valido c \<and> nome_erro res then 1 else 0)"
      "ok st1 = ok st + (if cnpj_valido c \<and> \<not> nome_erro res then 1 else 0)"
      "lookups (eventos st1) = lookups (eventos st) @ (if cnpj_valido c then [c] else [])"
    by blast
  note ih = Cons.IH[OF rest dc]
  from ih nc have keep: "resultados_map st' c = Some res"
    by (simp add: res(2))
  have d: "dom (resultados_map st') = dom (resultados_map st) \<union> set (c # cs)"
    using ih by (auto simp: res(2))
  have k: "\<forall>x. x \<notin> set (c # cs) \<longrightarrow> resultados_map st' x = resultados_map st x"
    using ih by (auto simp: res(2))
  have e: "\<forall>x\<in>set (c # cs). \<exists>r. resultados_map st' x = Some r \<and> CNPJ r = x
            \<and> (\<not> cnpj_valido x \<longrightarrow> r = registro_status x cnpj_invalido_dv)"
    using ih keep res(1,3) by auto
  have i: "inval st' = inval st + length (filter (\<lambda>c. \<not> cnpj_valido c) (c # cs))"
    using ih by (simp add: res(4))
  have r: "err st' = err st
      + length (filter (\<lambda>c. cnpj_valido c \<and> nome_erro (the (resultados_map st' c))) (c # cs))"
    using ih by (simp add: res(5) keep)
  have o: "ok st' = ok st
      + length (filter (\<lambda>c. cnpj_valido c \<and> \<not> nome_erro (the (resultados_map st' c))) (c # cs))"
    using ih by (simp add: res(6) keep)
  have l: "lookups (eventos st') = lookups (eventos st) @ filter cnpj_valido (c # cs)"
    using ih by (simp add: res(7))
  from d k e i r o l show ?case by blast
qed

lemma lista_unicos_props:
  "distinct (lista_unicos df)" "set (lista_unicos df) = set (lista_todos df)"
  by (simp_all add: lista_unicos_def)

lemma those_map_Some:
  "(\<forall>c\<in>set cs. m c \<noteq> None) \<Longrightarrow> those (map m cs) = Some (map (\<lambda>c. the (m c)) cs)"
  by (induction cs) auto

lemma filter_key_unique:
  assumes "distinct cs" "x \<in> set cs" "\<forall>c\<in>set cs. key (f c) = c"
  shows "filter (\<lambda>r. key r = x) (map f cs) = [f x]"
  using assms
proof (induction cs)
  case Nil
  then show ?case by simp
next
  case (Cons c cs)
  show ?case
  proof (cases "c = x")
    case True
    with Cons.prems have "x \<notin> set cs" by simp
    with Cons.prems(3) have "filter (\<lambda>r. key r = x) (map f cs) = []"
      by (auto simp: filter_empty_conv)
    with True Cons.prems(3) show ?thesis by simp
  next
    case False
    with Cons show ?thesis by auto
  qed
qed

lemma valor_append:
  assumes "length a = length A"
  shows "valor (A @ B) (a @ b) n = (if n \<in> set A then valor A a n else valor B b n)"
proof -
  from assms have z: "zip (A @ B) (a @ b) = zip A a @ zip B b" by simp
  from assms have none: "map_of (zip A a) n = None \<longleftrightarrow> n \<notin> set A" by simp
  show ?thesis
  proof (cases "n \<in> set A")
    case True
    with none obtain c where "map_of (zip A a) n = Some c" by auto
    with True show ?thesis by (simp add: valor_def z map_add_def)
  next
    case False
    with none have "map_of (zip A a) n = None" by simp
    with False show ?thesis by (simp add: valor_def z map_add_def)
  qed
qed

lemma valor_map: "valor xs (map f xs) n = (if n \<in> set xs then f n else None)"
  by (simp add: valor_def map_of_zip_map)

lemma valor_Some: "valor xs (map Some ys) n = map_of (zip xs ys) n"
proof -
  have "zip xs (map Some ys) = map (\<lambda>(x, y). (x, Some y)) (zip xs ys)"
    by (simp add: zip_map2)
  then have "map_of (zip xs (map Some ys)) n = map_option Some (map_of (zip xs ys) n)"
    by (simp add: map_of_map)
  then show ?thesis
    by (cases "map_of (zip xs ys) n") (simp_all add: valor_def)
qed

lemma campos_facts:
  "campos = COLUNA_CNPJ # tl campos" "distinct campos" "length (tl campos) = 21"
  "''_CNPJ_VALIDO'' \<notin> set campos"
  by (simp_all add: campos_def COLUNA_CNPJ_def)

lemma colunas_consulta_facts:
  "colunas_consulta = ''_CNPJ_VALIDO'' # tl colunas_consulta" "length (tl colunas_consulta) = 21"
  "set (tl colunas_consulta) = set (tl campos)" "tl campos \<noteq> tl colunas_consulta"
  by (simp_all add: colunas_consulta_def campos_def insert_commute)

lemma valores_facts: "valores res = PStr (CNPJ res) # tl (valores res)" "length (tl (valores res)) = 21"
  by (simp_all add: valores_def)

lemma itens_tl:
  assumes "n \<in> set (tl campos)"
  shows "map_of (itens res) n = map_of (zip (tl campos) (tl (valores res))) n"
proof -
  from assms campos_facts(1,2) have "n \<noteq> COLUNA_CNPJ"
    by (metis distinct.simps(2))
  moreover have "itens res = (COLUNA_CNPJ, PStr (CNPJ res)) # zip (tl campos) (tl (valores res))"
    unfolding itens_def by (subst campos_facts(1), subst valores_facts(1)) simp
  ultimately show ?thesis by simp
qed

lemma itens_CNPJ: "map_of (itens res) COLUNA_CNPJ = Some (PStr (CNPJ res))"
proof -
  have "itens res = (COLUNA_CNPJ, PStr (CNPJ res)) # zip (tl campos) (tl (valores res))"
    unfolding itens_def by (subst campos_facts(1), subst valores_facts(1)) simp
  then show ?thesis by simp
qed

lemma colunas_df_set: "set (colunas_df p) = insert ''_CNPJ_VALIDO'' (set (colunas p))"
  by (auto simp: colunas_df_def)

lemma colunas_df_distinct: "distinct (colunas p) \<Longrightarrow> distinct (colunas_df p)"
  by (simp add: colunas_df_def)

lemma length_linha_df [simp]: "length (linha_df p l) = length (colunas_df p)"
  by (simp add: linha_df_def)

lemma sem_conflito_disjoint:
  assumes "sem_conflito p"
  shows "set (colunas_df p) \<inter> set (tl campos) = {}"
proof -
  from assms have "set (colunas p) \<inter> set (tl campos) = {}"
    by (auto simp: sem_conflito_def list_all_iff)
  moreover have "''_CNPJ_VALIDO'' \<notin> set (tl campos)"
    using campos_facts(4) by (metis list.set_sel(2) tl_Nil)
  ultimately show ?thesis by (simp add: colunas_df_set)
qed

lemma sufixo_Nil [simp]: "map (sufixo [] s) xs = xs"
  by (induction xs) (simp_all add: sufixo_def)

lemma merge_left_sem_conflito:
  assumes "distinct cs" "cs \<noteq> []" "\<forall>c\<in>set cs. CNPJ (f c) = c" "\<forall>l\<in>set df. col_cnpj l \<in> set cs"
    and "distinct (colunas p)" "sem_conflito p"
  shows "merge_left p df (map f cs) =
     Inr \<lparr>rotulos = colunas_df p @ tl campos,
          celulas = map (\<lambda>l. linha_df p l @ map Some (tl (valores (f (col_cnpj l))))) df\<rparr>"
proof -
  have "(case filter (\<lambda>r. CNPJ r = col_cnpj l) (map f cs) of
           [] \<Rightarrow> [linha_df p l @ replicate (length (tl campos)) None]
         | ms \<Rightarrow> map (\<lambda>m. linha_df p l @ map Some (tl (valores m))) ms)
        = [linha_df p l @ map Some (tl (valores (f (col_cnpj l))))]"
    if "l \<in> set df" for l
    using filter_key_unique[OF assms(1), of "col_cnpj l" CNPJ f] assms(3,4) that by simp
  then have "concat (map (\<lambda>l. case filter (\<lambda>r. CNPJ r = col_cnpj l) (map f cs) of
           [] \<Rightarrow> [linha_df p l @ replicate (length (tl campos)) None]
         | ms \<Rightarrow> map (\<lambda>m. linha_df p l @ map Some (tl (valores m))) ms) df)
      = concat (map (\<lambda>l. [linha_df p l @ map Some (tl (valores (f (col_cnpj l))))]) df)"
    by (metis (no_types, lifting) map_eq_conv)
  also have "\<dots> = map (\<lambda>l. linha_df p l @ map Some (tl (valores (f (col_cnpj l))))) df"
    by (induction df) simp_all
  finally have rows: "concat (map (\<lambda>l. case filter (\<lambda>r. CNPJ r = col_cnpj l) (map f cs) of
           [] \<Rightarrow> [linha_df p l @ replicate (length (tl campos)) None]
         | ms \<Rightarrow> map (\<lambda>m. linha_df p l @ map Some (tl (valores m))) ms) df)
      = map (\<lambda>l. linha_df p l @ map Some (tl (valores (f (col_cnpj l))))) df" .
  from sem_conflito_disjoint[OF assms(6)]
  have com: "filter (\<lambda>n. n \<in> set (tl campos)) (colunas_df p) = []"
    by (auto simp: filter_empty_conv)
  have d1: "distinct (colunas_df p)" by (rule colunas_df_distinct[OF assms(5)])
  have d2: "distinct (tl campos)" using campos_facts(2) by (rule distinct_tl)
  from assms(2) have ne: "map f cs \<noteq> []" by simp
  show ?thesis
    unfolding merge_left_def Let_def com rows using ne d1 d2 by simp
qed

lemma reindex_saida:
  assumes "distinct (colunas p)" "sem_conflito p"
  shows "reindex \<lparr>rotulos = colunas_df p @ tl campos, celulas = rows\<rparr> (cols_saida p) =
     Inr \<lparr>rotulos = cols_saida p,
          celulas = map (\<lambda>r. map (valor (colunas_df p @ tl campos) r) (cols_saida p)) rows\<rparr>"
proof -
  have "cols_saida p = (filter (\<lambda>c. c \<noteq> ''_CNPJ_VALIDO'') (colunas_df p) @ [''_CNPJ_VALIDO''])
      @ tl colunas_consulta"
    unfolding cols_saida_def by (subst colunas_consulta_facts(1)) simp
  then have ne: "colunas_df p @ tl campos \<noteq> cols_saida p"
    using colunas_consulta_facts(2,4) campos_facts(3)
    by (metis append_eq_append_conv)
  have "distinct (colunas_df p @ tl campos)"
    using colunas_df_distinct[OF assms(1)] distinct_tl[OF campos_facts(2)]
      sem_conflito_disjoint[OF assms(2)] by simp
  with ne show ?thesis by (simp add: reindex_def)
qed

lemma lista_unicos_Nil: "lista_unicos df = [] \<longleftrightarrow> df = []"
proof -
  have "set (lista_unicos df) = set (map col_cnpj df)"
    by (simp add: lista_unicos_def lista_todos_def)
  then show ?thesis
    by (metis list.map_disc_iff set_empty)
qed

text \<open>
  The cell that the final table holds for a row of \<^verbatim>\<open>df\<close> under a label of
  \<^verbatim>\<open>cols_saida\<close>, when no column of the sheet has the label of a column added by the
  merge: the cell of \<^verbatim>\<open>df\<close>, or the value that the dict of the row's identifier has
  under that key.
\<close>

lemma celula_final:
  assumes "sem_conflito p"
  shows "valor (colunas_df p @ tl campos) (linha_df p l @ map Some (tl (valores res))) n =
     (if n \<in> set (colunas_df p) then celula_df p l n
      else map_of (zip (tl campos) (tl (valores res))) n)"
  by (simp add: valor_append valor_Some) (simp add: linha_df_def valor_map)

lemma enrich_column_missing: "COLUNA_CNPJ \<notin> set (colunas p) \<Longrightarrow> enrich rt p = Inl KeyError"
  by (simp add: enrich_def)

lemma enrich_empty:
  assumes "linhas p = []"
  shows "\<exists>e. enrich rt p = Inl e"
proof (cases "COLUNA_CNPJ \<in> set (colunas p)")
  case False
  then show ?thesis by (simp add: enrich_def)
next
  case True
  from assms have "lista_unicos (pre_processamento rt (tabela_de p)) = []"
    by (simp add: lista_unicos_Nil pre_processamento_def tabela_de_def)
  with True show ?thesis
    by (simp add: enrich_def merge_left_def)
qed

lemma enrich_sem_conflito:
  assumes "planilha_ok p" "sem_conflito p" "linhas p \<noteq> []"
    and run: "consultas rt (lista_unicos (pre_processamento rt (tabela_de p))) estado_inicial = Inr st"
  shows "enrich rt p =
     Inr (\<lparr>rotulos = cols_saida p,
           celulas = map (\<lambda>l. map (\<lambda>n. if n \<in> set (colunas_df p) then celula_df p l n
                                        else map_of (zip (tl campos)
                                               (tl (valores (the (resultados_map st (col_cnpj l)))))) n)
                                 (cols_saida p))
                       (pre_processamento rt (tabela_de p))\<rparr>, st)"
proof -
  let ?df = "pre_processamento rt (tabela_de p)"
  let ?cs = "lista_unicos ?df"
  let ?f = "\<lambda>c. the (resultados_map st c)"
  from assms(1) have col: "COLUNA_CNPJ \<in> set (colunas p)" and dist: "distinct (colunas p)"
    by (simp_all add: planilha_ok_def)
  note inv = consultas_inv[OF run lista_unicos_props(1)]
  from inv have ex: "\<forall>c\<in>set ?cs. resultados_map st c \<noteq> None" and key: "\<forall>c\<in>set ?cs. CNPJ (?f c) = c"
    by auto
  have th: "those (map (resultados_map st) ?cs) = Some (map ?f ?cs)"
    by (rule those_map_Some[OF ex])
  have mem: "\<forall>l\<in>set ?df. col_cnpj l \<in> set ?cs"
    by (simp add: lista_unicos_props(2) lista_todos_def)
  from assms(3) have ne: "?cs \<noteq> []"
    by (simp add: lista_unicos_Nil pre_processamento_def tabela_de_def)
  note m = merge_left_sem_conflito[OF lista_unicos_props(1) ne key mem dist assms(2)]
  note r = reindex_saida[OF dist assms(2)]
  show ?thesis
    unfolding enrich_def Let_def using col
    by (simp add: run th m r celula_final[OF assms(2)] comp_def)
qed

lemma enrich_total:
  assumes "planilha_ok p" "sem_conflito p" "linhas p \<noteq> []" "provider_ok rt"
  shows "\<exists>q st. enrich rt p = Inr (q, st)
           \<and> consultas rt (lista_unicos (pre_processamento rt (tabela_de p))) estado_inicial = Inr st"
proof -
  from consultas_total[OF assms(4)] obtain st where
    run: "consultas rt (lista_unicos (pre_processamento rt (tabela_de p))) estado_inicial = Inr st"
    by blast
  from enrich_sem_conflito[OF assms(1-3) run] run show ?thesis by blast
qed

lemma lookups_inicial [simp]: "lookups (eventos estado_inicial) = []"
  by (simp add: estado_inicial_def)

lemma count_list_filter_distinct:
  "distinct cs \<Longrightarrow> count_list (filter P cs) c = (if c \<in> set cs \<and> P c then 1 else 0)"
  by (induction cs) auto

text \<open>
  Claim C1, as the code has it. Take a sheet with the column \<^verbatim>\<open>CNPJ\<close>, none of whose
  columns has the label of a column that the merge adds, a provider that keeps to its
  protocol, and an identifier \<open>c\<close> that some row carries after normalization. Then the
  script reaches its end and the table it writes has as many rows as the sheet. In the
  order of the sheet, each row holds the normalized identifier of the row of the sheet,
  its flag \<^verbatim>\<open>_CNPJ_VALIDO\<close> and the other cells of that row. The main loop called
  \<^verbatim>\<open>consulta_brasilapi\<close> for \<open>c\<close> once when \<open>c\<close> passes the checksum and never
  otherwise, and every row that carries \<open>c\<close> holds, under each key of the dict, the value
  of the one dict that \<^verbatim>\<open>resultados_map\<close> keeps for \<open>c\<close>.

  The claim is stated for every table. On a sheet that has a column labelled like a key
  of the dict (the legal name, say) the merge renames both columns with the suffixes
  \<^verbatim>\<open>_x\<close> and \<^verbatim>\<open>_y\<close>, \<^verbatim>\<open>reindex\<close> finds no column of that label, and the rows hold a
  missing value where the claim has the value of the dict. With a provider that answers
  200 and a legal name that is no string, \<^verbatim>\<open>startswith\<close> raises in the main loop and
  the script writes no table.
\<close>

theorem enrich_dedup_merge:
  assumes "planilha_ok p" and "sem_conflito p" and "provider_ok rt"
    and "c \<in> set (lista_todos (pre_processamento rt (tabela_de p)))"
  shows "\<exists>df_final st res.
           enrich rt p = Inr (df_final, st)
         \<and> length (celulas df_final) = length (linhas p)
         \<and> (\<forall>i<length (linhas p).
              valor (rotulos df_final) (celulas df_final ! i) COLUNA_CNPJ =
                Some (PStr (normaliza_cnpj rt (celula_cnpj p (linhas p ! i))))
            \<and> valor (rotulos df_final) (celulas df_final ! i) ''_CNPJ_VALIDO'' =
                Some (PBool (cnpj_valido (normaliza_cnpj rt (celula_cnpj p (linhas p ! i)))))
            \<and> (\<forall>n\<in>set (colunas p). n \<noteq> COLUNA_CNPJ \<and> n \<noteq> ''_CNPJ_VALIDO'' \<longrightarrow>
                  valor (rotulos df_final) (celulas df_final ! i) n =
                    valor (colunas p) (map Some (linhas p ! i)) n))
         \<and> count_list (lookups (eventos st)) c = (if cnpj_valido c then 1 else 0)
         \<and> resultados_map st c = Some res
         \<and> (\<forall>i<length (linhas p).
              normaliza_cnpj rt (celula_cnpj p (linhas p ! i)) = c \<longrightarrow>
              (\<forall>f\<in>set campos.
                 valor (rotulos df_final) (celulas df_final ! i) f = map_of (itens res) f))"
proof -
  let ?df = "pre_processamento rt (tabela_de p)"
  let ?id = "\<lambda>i. normaliza_cnpj rt (celula_cnpj p (linhas p ! i))"
  from assms(4) have ne: "linhas p \<noteq> []"
    by (auto simp: lista_todos_def pre_processamento_def tabela_de_def)
  from assms(1) have col: "COLUNA_CNPJ \<in> set (colunas p)" by (simp add: planilha_ok_def)
  from enrich_total[OF assms(1,2) ne assms(3)] obtain q st where
    e: "enrich rt p = Inr (q, st)" and run: "consultas rt (lista_unicos ?df) estado_inicial = Inr st"
    by blast
  let ?g = "\<lambda>l n. if n \<in> set (colunas_df p) then celula_df p l n
                  else map_of (zip (tl campos) (tl (valores (the (resultados_map st (col_cnpj l)))))) n"
  from e enrich_sem_conflito[OF assms(1,2) ne run]
  have q: "q = \<lparr>rotulos = cols_saida p, celulas = map (\<lambda>l. map (?g l) (cols_saida p)) ?df\<rparr>"
    by simp
  have len: "length ?df = length (linhas p)"
    by (simp add: pre_processamento_def tabela_de_def)
  have row: "?df ! i = \<lparr>col_cnpj = ?id i, col_valido = cnpj_valido (?id i), col_resto = linhas p ! i\<rparr>"
    if "i < length (linhas p)" for i
    using that by (simp add: pre_processamento_def tabela_de_def)
  have cell: "valor (rotulos q) (celulas q ! i) n = (if n \<in> set (cols_saida p) then ?g (?df ! i) n else None)"
    if "i < length (linhas p)" for i n
    using that by (simp add: q len valor_map)
  have saida: "set (cols_saida p) = set (colunas p) \<union> {''_CNPJ_VALIDO''} \<union> set (tl campos)"
    unfolding cols_saida_def
    by (subst colunas_consulta_facts(1)) (auto simp: colunas_df_set colunas_consulta_facts(3))
  note inv = consultas_inv[OF run lista_unicos_props(1)]
  from assms(4) have cin: "c \<in> set (lista_unicos ?df)" by (simp add: lista_unicos_props(2))
  with inv obtain res where res: "resultados_map st c = Some res" and key: "CNPJ res = c" by blast
  have a: "length (celulas q) = length (linhas p)" by (simp add: q len)
  have b: "valor (rotulos q) (celulas q ! i) COLUNA_CNPJ = Some (PStr (?id i))
      \<and> valor (rotulos q) (celulas q ! i) ''_CNPJ_VALIDO'' = Some (PBool (cnpj_valido (?id i)))
      \<and> (\<forall>n\<in>set (colunas p). n \<noteq> COLUNA_CNPJ \<and> n \<noteq> ''_CNPJ_VALIDO'' \<longrightarrow>
            valor (rotulos q) (celulas q ! i) n = valor (colunas p) (map Some (linhas p ! i)) n)"
    if i: "i < length (linhas p)" for i
  proof -
    have b1: "valor (rotulos q) (celulas q ! i) COLUNA_CNPJ = Some (PStr (?id i))"
      using col by (simp add: cell[OF i] saida colunas_df_set celula_df_def row[OF i] COLUNA_CNPJ_def)
    have b2: "valor (rotulos q) (celulas q ! i) ''_CNPJ_VALIDO'' = Some (PBool (cnpj_valido (?id i)))"
      by (simp add: cell[OF i] saida colunas_df_set celula_df_def row[OF i])
    have b3: "valor (rotulos q) (celulas q ! i) n = valor (colunas p) (map Some (linhas p ! i)) n"
      if "n \<in> set (colunas p)" "n \<noteq> COLUNA_CNPJ" "n \<noteq> ''_CNPJ_VALIDO''" for n
      using that by (simp add: cell[OF i] saida colunas_df_set celula_df_def row[OF i] valor_Some)
    from b1 b2 b3 show ?thesis by blast
  qed
  from inv have "lookups (eventos st) = filter cnpj_valido (lista_unicos ?df)" by simp
  with cin have k: "count_list (lookups (eventos st)) c = (if cnpj_valido c then 1 else 0)"
    by (simp add: count_list_filter_distinct[OF lista_unicos_props(1)])
  have d: "valor (rotulos q) (celulas q ! i) f = map_of (itens res) f"
    if i: "i < length (linhas p)" and c: "?id i = c" and f: "f \<in> set campos" for i f
  proof (cases "f = COLUNA_CNPJ")
    case True
    with b[OF i] c key show ?thesis by (simp add: itens_CNPJ)
  next
    case False
    with f have ft: "f \<in> set (tl campos)"
      by (subst (asm) campos_facts(1)) simp
    with sem_conflito_disjoint[OF assms(2)] have "f \<notin> set (colunas_df p)" by auto
    with ft show ?thesis
      by (simp add: cell[OF i] saida row[OF i] c res itens_tl)
  qed
  from e a b k res d show ?thesis by blast
qed

theorem enrich_dedup_merge_counterexample:
  "map_sum id
     (\<lambda>(df_final, st).
        (map (\<lambda>r. valor (rotulos df_final) r (campos ! 1)) (celulas df_final),
         map_option Razao_Social (resultados_map st ''11222333000181'')))
     (enrich (rt_fixed (Response 404 (Inl ''no body''))) planilha_conflito)
     = Inr ([None, None], Some (PStr (nao_encontrado @ '': '' @ nao_encontrado)))
   \<and> map_sum id (\<lambda>(df_final, st). length (celulas df_final))
       (enrich (rt_fixed (Response 200 (Inr (PDict [(''razao_social'', PNone)])))) planilha_exemplo)
     = Inl AttributeError"
  by code_simp

lemma three_way_count:
  "length (filter (\<lambda>c. V c \<and> \<not> E c) cs) + length (filter (\<lambda>c. \<not> V c) cs)
     + length (filter (\<lambda>c. V c \<and> E c) cs) = length cs"
  by (induction cs) auto

text \<open>
  Claim C10. One pass of the loop body adds one to exactly one of the three counters.
  When the loop over the distinct identifiers ends, the three counters add up to the
  number of distinct normalized identifiers of the table, and \<^verbatim>\<open>resultados_map\<close> has
  exactly these identifiers as keys, one record each. With a provider that keeps to its
  protocol the loop does end.
\<close>

theorem consultas_classifies_each_identifier:
  "(\<forall>st1. iteracao rt cnpj st0 = Inr st1 \<longrightarrow>
       (ok st1, inval st1, err st1) = (ok st0 + 1, inval st0, err st0)
     \<or> (ok st1, inval st1, err st1) = (ok st0, inval st0 + 1, err st0)
     \<or> (ok st1, inval st1, err st1) = (ok st0, inval st0, err st0 + 1))
   \<and> (\<forall>st. consultas rt (lista_unicos df) estado_inicial = Inr st \<longrightarrow>
         ok st + inval st + err st = card (set (lista_todos df))
       \<and> dom (resultados_map st) = set (lista_todos df))
   \<and> (provider_ok rt \<longrightarrow> (\<exists>st. consultas rt (lista_unicos df) estado_inicial = Inr st))"
proof -
  have a: "(ok st1, inval st1, err st1) = (ok st0 + 1, inval st0, err st0)
     \<or> (ok st1, inval st1, err st1) = (ok st0, inval st0 + 1, err st0)
     \<or> (ok st1, inval st1, err st1) = (ok st0, inval st0, err st0 + 1)"
    if "iteracao rt cnpj st0 = Inr st1" for st1
    using iteracao_Inr[OF that] by (auto split: if_splits)
  have b: "ok st + inval st + err st = card (set (lista_todos df))
       \<and> dom (resultados_map st) = set (lista_todos df)"
    if run: "consultas rt (lista_unicos df) estado_inicial = Inr st" for st
  proof -
    note inv = consultas_inv[OF run lista_unicos_props(1)]
    let ?cs = "lista_unicos df"
    let ?e = "\<lambda>c. nome_erro (the (resultados_map st c))"
    have cnt: "length (filter (\<lambda>c. cnpj_valido c \<and> \<not> ?e c) ?cs)
        + length (filter (\<lambda>c. \<not> cnpj_valido c) ?cs)
        + length (filter (\<lambda>c. cnpj_valido c \<and> ?e c) ?cs) = length ?cs"
      by (rule three_way_count)
    have "length ?cs = card (set (lista_todos df))"
      using distinct_card[OF lista_unicos_props(1), of df] by (simp add: lista_unicos_props(2))
    with inv cnt show ?thesis
      by (simp add: estado_inicial_def lista_unicos_props(2))
  qed
  from a b consultas_total[of rt "lista_unicos df" estado_inicial] show ?thesis by blast
qed

text \<open>
  Claim C8, as the code has it. The counters are incremented in the loop over
  \<^verbatim>\<open>lista_unicos\<close>, so they count distinct identifiers and not rows: \<^verbatim>\<open>inval\<close> the
  identifiers that fail the checksum, \<^verbatim>\<open>err\<close> the identifiers that pass it and whose
  legal name starts with one of the two prefixes, \<^verbatim>\<open>ok\<close> the identifiers that pass it
  and whose legal name starts with neither. On a table whose two rows carry the same
  invalid identifier the counter of invalid identifiers is 1 for 2 invalid rows, and the
  success counter is 0 although the legal name of both rows starts with neither prefix.
\<close>

theorem summary_counts_distinct_identifiers:
  assumes "consultas rt (lista_unicos df) estado_inicial = Inr st"
  shows "distinct (lista_unicos df) \<and> set (lista_unicos df) = set (lista_todos df)
   \<and> ok st = length (filter (\<lambda>c. cnpj_valido c \<and> \<not> nome_erro (the (resultados_map st c)))
                       (lista_unicos df))
   \<and> inval st = length (filter (\<lambda>c. \<not> cnpj_valido c) (lista_unicos df))
   \<and> err st = length (filter (\<lambda>c. cnpj_valido c \<and> nome_erro (the (resultados_map st c)))
                        (lista_unicos df))"
  using consultas_inv[OF assms lista_unicos_props(1)] lista_unicos_props[of df]
  by (simp add: estado_inicial_def)

theorem summary_counts_rows_counterexample:
  "map_sum id
     (\<lambda>(df_final, st). (inval st, linhas_invalidas df_final, ok st, linhas_sem_erro df_final))
     (enrich rt_offline planilha_repetida) = Inr (1, 2, 0, 2)"
  by code_simp

section \<open>The pipeline on two tables\<close>

lemma provider_ok_fixed_404: "provider_ok (rt_fixed (Response 404 b))"
  by (simp add: provider_ok_def rt_fixed_def)

lemma provider_ok_offline: "provider_ok rt_offline"
  by (simp add: provider_ok_def rt_offline_def)

theorem enrich_dedup_merge_witness:
  "planilha_ok planilha_exemplo \<and> sem_conflito planilha_exemplo
   \<and> provider_ok (rt_fixed (Response 404 (Inl ''no body'')))
   \<and> ''11222333000181'' \<in> set (lista_todos
         (pre_processamento (rt_fixed (Response 404 (Inl ''no body''))) (tabela_de planilha_exemplo)))
   \<and> (\<exists>df_final st.
        enrich (rt_fixed (Response 404 (Inl ''no body''))) planilha_exemplo = Inr (df_final, st)
        \<and> length (celulas df_final) = 3
        \<and> valor (rotulos df_final) (celulas df_final ! 0) ''Filial'' = Some (PStr ''A'')
        \<and> valor (rotulos df_final) (celulas df_final ! 1) ''Filial'' = Some (PStr ''B'')
        \<and> valor (rotulos df_final) (celulas df_final ! 2) ''Filial'' = Some (PStr ''C'')
        \<and> count_list (lookups (eventos st)) ''11222333000181'' = 1
        \<and> map (valor (rotulos df_final) (celulas df_final ! 0)) campos
            = map (valor (rotulos df_final) (celulas df_final ! 2)) campos
        \<and> valor (rotulos df_final) (celulas df_final ! 0) (campos ! 1)
            = map_option Razao_Social (resultados_map st ''11222333000181''))"
proof -
  let ?rt = "rt_fixed (Response 404 (Inl ''no body''))"
  let ?c = "''11222333000181''"
  let ?p = "planilha_exemplo"
  have ok: "planilha_ok ?p" by code_simp
  have sc: "sem_conflito ?p" by code_simp
  have ids: "normaliza_cnpj ?rt (celula_cnpj ?p (linhas ?p ! 0)) = ?c"
      "normaliza_cnpj ?rt (celula_cnpj ?p (linhas ?p ! 2)) = ?c"
    by code_simp+
  have h: "?c \<in> set (lista_todos (pre_processamento ?rt (tabela_de ?p)))"
    by code_simp
  have v: "cnpj_valido ?c" by code_simp
  have n: "length (linhas ?p) = 3" by (simp add: planilha_exemplo_def)
  have cols: "''Filial'' \<in> set (colunas ?p)" "''Filial'' \<noteq> COLUNA_CNPJ"
    by (simp_all add: planilha_exemplo_def COLUNA_CNPJ_def)
  have cells: "valor (colunas ?p) (map Some (linhas ?p ! 0)) ''Filial'' = Some (PStr ''A'')"
      "valor (colunas ?p) (map Some (linhas ?p ! 1)) ''Filial'' = Some (PStr ''B'')"
      "valor (colunas ?p) (map Some (linhas ?p ! 2)) ''Filial'' = Some (PStr ''C'')"
    by (simp_all add: planilha_exemplo_def valor_def)
  have f1: "campos ! 1 \<in> set campos" by (simp add: campos_def)
  have rs: "map_of (itens res) (campos ! 1) = Some (Razao_Social res)" for res
    by (simp add: itens_def campos_def valores_def)
  from enrich_dedup_merge[OF ok sc provider_ok_fixed_404 h] obtain df_final st res where
    e: "enrich ?rt ?p = Inr (df_final, st)"
    and len: "length (celulas df_final) = length (linhas ?p)"
    and rows: "\<forall>i<length (linhas ?p). \<forall>n\<in>set (colunas ?p). n \<noteq> COLUNA_CNPJ \<and> n \<noteq> ''_CNPJ_VALIDO'' \<longrightarrow>
          valor (rotulos df_final) (celulas df_final ! i) n = valor (colunas ?p) (map Some (linhas ?p ! i)) n"
    and cnt: "count_list (lookups (eventos st)) ?c = (if cnpj_valido ?c then 1 else 0)"
    and res: "resultados_map st ?c = Some res"
    and same: "\<forall>i<length (linhas ?p). normaliza_cnpj ?rt (celula_cnpj ?p (linhas ?p ! i)) = ?c \<longrightarrow>
          (\<forall>f\<in>set campos. valor (rotulos df_final) (celulas df_final ! i) f = map_of (itens res) f)"
    by blast
  from rows n cols cells
  have fil: "valor (rotulos df_final) (celulas df_final ! 0) ''Filial'' = Some (PStr ''A'')"
      "valor (rotulos df_final) (celulas df_final ! 1) ''Filial'' = Some (PStr ''B'')"
      "valor (rotulos df_final) (celulas df_final ! 2) ''Filial'' = Some (PStr ''C'')"
    by simp_all
  from same n ids
  have s0: "\<forall>f\<in>set campos. valor (rotulos df_final) (celulas df_final ! 0) f = map_of (itens res) f"
    and s2: "\<forall>f\<in>set campos. valor (rotulos df_final) (celulas df_final ! 2) f = map_of (itens res) f"
    by simp_all
  from s0 s2 have eq: "map (valor (rotulos df_final) (celulas df_final ! 0)) campos
      = map (valor (rotulos df_final) (celulas df_final ! 2)) campos"
    by simp
  from s0 f1 rs res
  have name: "valor (rotulos df_final) (celulas df_final ! 0) (campos ! 1)
      = map_option Razao_Social (resultados_map st ?c)"
    by simp
  from ok sc provider_ok_fixed_404 h e len n fil cnt v eq name show ?thesis by auto
qed

theorem consultas_classifies_each_identifier_witness:
  "provider_ok (rt_fixed (Response 404 (Inl ''no body'')))
   \<and> (\<exists>st. consultas (rt_fixed (Response 404 (Inl ''no body'')))
          (lista_unicos (pre_processamento (rt_fixed (Response 404 (Inl ''no body''))) tabela_exemplo))
          estado_inicial = Inr st
        \<and> ok st + inval st + err st = 2
        \<and> dom (resultados_map st) = {''00000000000123'', ''11222333000181''})"
proof -
  let ?rt = "rt_fixed (Response 404 (Inl ''no body''))"
  let ?df = "pre_processamento ?rt tabela_exemplo"
  have lu: "lista_unicos ?df = [''00000000000123'', ''11222333000181'']"
    by code_simp
  have s: "set (lista_todos ?df) = {''00000000000123'', ''11222333000181''}"
    using lista_unicos_props(2)[of ?df] by (simp add: lu)
  note th = consultas_classifies_each_identifier[of ?rt _ _ ?df]
  from th provider_ok_fixed_404 obtain st where
    run: "consultas ?rt (lista_unicos ?df) estado_inicial = Inr st" by blast
  with th have "ok st + inval st + err st = card (set (lista_todos ?df))"
    and "dom (resultados_map st) = set (lista_todos ?df)" by blast+
  with run s provider_ok_fixed_404 show ?thesis by auto
qed

theorem summary_counts_distinct_identifiers_witness:
  "\<exists>st. consultas rt_offline (lista_unicos (pre_processamento rt_offline tabela_repetida))
          estado_inicial = Inr st
     \<and> ok st = 0 \<and> inval st = 1 \<and> err st = 0"
proof -
  let ?df = "pre_processamento rt_offline tabela_repetida"
  have lu: "lista_unicos ?df = [''11111111111111'']" by code_simp
  have v: "\<not> cnpj_valido ''11111111111111''" by code_simp
  from consultas_total[OF provider_ok_offline] obtain st where
    run: "consultas rt_offline (lista_unicos ?df) estado_inicial = Inr st" by blast
  from summary_counts_distinct_identifiers[OF run] v
  have "ok st = 0 \<and> inval st = 1 \<and> err st = 0" by (simp add: lu)
  with run show ?thesis by blast
qed

end
